theory Spec2Isabelle
  imports Complex_Main "HOL-Library.AList"
begin

section \<open>Numbers of the source\<close>

text \<open>
  A JavaScript number is an IEEE 754 double. The model takes a double as the real
  number it stands for, and an arithmetic operation of the phase clock as the exact
  operation followed by \<open>fl\<close>, the rounding to the nearest number with a significand
  of 53 bits, a tie going to the even significand. The exponent is not bounded:
  overflow, subnormal numbers, infinities, NaN and the sign of zero are outside the
  model, and a division by zero is excluded where a statement depends on it.
  \<open>Math.floor\<close>, \<open>Math.round\<close> and the remainder \<open>%\<close> (whose quotient is truncated
  towards zero) are exact on doubles. \<open>Math.PI\<close> is the double nearest to \<open>\<pi>\<close>,
  3.141592653589793115997963..., and \<open>Math.cos\<close> and \<open>Math.sin\<close> are taken as the
  correctly rounded cosine and sine. The rounding is written out in the phase clock,
  where the statements depend on it; the shader (single precision on the GPU) and the
  frame count of the page's handlers are kept in exact arithmetic.
\<close>

definition round_even :: "real \<Rightarrow> int" where
  "round_even y =
     (let f = floor y
      in if y - of_int f < 1 / 2 then f
         else if 1 / 2 < y - of_int f then f + 1
         else if even f then f else f + 1)"

definition fl :: "real \<Rightarrow> real" where
  "fl x =
     (if x = 0 then 0
      else (let e = floor (log 2 \<bar>x\<bar>)
            in of_int (round_even (x / 2 powi (e - 52))) * 2 powi (e - 52)))"

text \<open>\<open>Math.PI\<close> is 884279719003555 / 2^48.\<close>

definition Math_PI :: real where
  "Math_PI = 884279719003555 / 281474976710656"

definition Math_cos :: "real \<Rightarrow> real" where
  "Math_cos x = fl (cos x)"

definition Math_sin :: "real \<Rightarrow> real" where
  "Math_sin x = fl (sin x)"

definition Math_round :: "real \<Rightarrow> int" where
  "Math_round x = floor (x + 1 / 2)"

definition trunc :: "real \<Rightarrow> int" where
  "trunc x = (if 0 \<le> x then floor x else ceiling x)"

definition js_rem :: "real \<Rightarrow> real \<Rightarrow> real" where
  "js_rem x y = x - y * of_int (trunc (x / y))"

section \<open>Configuration (types/config.ts)\<close>

record DisplacementConfig =
  amountPx :: real
  size_c :: real
  octaves :: real
  speed :: real
  seed :: real
  edgeStrength :: real
  edgeThreshold :: real
  loopDuration :: real
  fps :: real
  bgTransparent :: bool
  bgColor :: string
  posterize :: real

definition DEFAULT_CONFIG :: DisplacementConfig where
  "DEFAULT_CONFIG = \<lparr> amountPx = 4, size_c = 20, octaves = 3, speed = 1, seed = 0,
     edgeStrength = 0, edgeThreshold = 1 / 10, loopDuration = 3, fps = 24,
     bgTransparent = True, bgColor = ''#ffffff'', posterize = 0 \<rparr>"

section \<open>Phase clock (useDisplacementEngine.ts)\<close>

text \<open>
  The phase of the live ticker callback at wall-clock time \<open>now\<close> (milliseconds, the
  value of \<open>performance.now()\<close>), for the time origin \<open>startTime\<close>.
\<close>

definition live_t :: "DisplacementConfig \<Rightarrow> real \<Rightarrow> real \<Rightarrow> real" where
  "live_t config startTime now =
     (let elapsed = fl (fl (now - startTime) / 1000);
          t = js_rem (fl (elapsed / loopDuration config)) 1
      in if posterize config > 0
         then (let stepsPerLoop = fl (posterize config * loopDuration config)
               in fl (of_int (floor (fl (t * stepsPerLoop))) / stepsPerLoop))
         else t)"

text \<open>The phase \<open>exportFrames\<close> computes for frame \<open>i\<close> of \<open>totalFrames\<close>.\<close>

definition export_t :: "DisplacementConfig \<Rightarrow> nat \<Rightarrow> real \<Rightarrow> real" where
  "export_t config i totalFrames =
     (let t = fl (real i / totalFrames)
      in if posterize config > 0
         then (let stepsPerLoop = fl (posterize config * loopDuration config)
               in fl (of_int (floor (fl (t * stepsPerLoop))) / stepsPerLoop))
         else t)"

text \<open>
  The uniform \<open>uTimeVec\<close> both modes write: \<open>[Math.cos(angle), Math.sin(angle)]\<close> for
  \<open>angle = t * Math.PI * 2\<close>.
\<close>

definition timeVec :: "real \<Rightarrow> real \<times> real" where
  "timeVec t = (let angle = fl (fl (t * Math_PI) * 2) in (Math_cos angle, Math_sin angle))"

section \<open>Engine state (useDisplacementEngine.ts)\<close>

text \<open>
  JavaScript errors: an \<open>Error\<close> the source throws carries its message; a
  \<open>TypeError\<close> is what the runtime throws when a property of \<open>null\<close> is read. A
  \<open>Blob\<close> has a content and a MIME type. A still image is a blob of bytes.
\<close>

datatype js_error = Error string | TypeError

type_synonym bytes = "nat list"

record 'a Blob =
  blob_data :: 'a
  blob_type :: string

text \<open>
  An image source is an image element or a canvas; \<open>loadImage\<close> reads the natural
  size of the first and the size of the second.
\<close>

datatype source =
    HTMLImageElement (naturalWidth: nat) (naturalHeight: nat)
  | HTMLCanvasElement (canvas_width: nat) (canvas_height: nat)

text \<open>The filter: the shader's uniforms and the padding.\<close>

record Filter =
  uResolution :: "real \<times> real"
  uTimeVec :: "real \<times> real"
  uAmountPx :: real
  uSize :: real
  uOctaves :: real
  uSpeed :: real
  uSeed :: real
  uEdgeStrength :: real
  uEdgeThreshold :: real
  padding :: int

text \<open>
  The PixiJS application, as far as the engine touches it: whether the ticker runs, the
  size of the renderer, the background (the colour is kept as the text handed to
  \<open>parseInt(..., 16)\<close>) and the children of the stage. A sprite is the texture made
  from its source; its filter list holds the one filter object that \<open>pixiRef\<close> also
  holds, so the model keeps that filter in one place, \<open>filter_p\<close>.
\<close>

record Application =
  ticker_started :: bool
  renderer_size :: "nat \<times> nat"
  background_alpha :: real
  background_color :: string
  stage :: "source list"

record PixiRefs =
  app :: "Application option"
  filter_p :: "Filter option"
  sprite :: "source option"
  PIXI :: bool

record engine =
  pixiRef :: PixiRefs
  configRef :: DisplacementConfig
  startTimeRef :: real
  destroyedRef :: bool

text \<open>The refs as \<open>useDisplacementEngine\<close> creates them, before \<open>init\<close> has run.\<close>

definition new_engine :: engine where
  "new_engine = \<lparr> pixiRef = \<lparr> app = None, filter_p = None, sprite = None, PIXI = False \<rparr>,
     configRef = DEFAULT_CONFIG, startTimeRef = 0, destroyedRef = False \<rparr>"

text \<open>
  \<open>init\<close>, after the import of the library has resolved, at time \<open>now\<close> and for a
  canvas of the given size (\<open>canvas.width || 800\<close>, \<open>canvas.height || 600\<close>). A new
  PixiJS application starts its ticker.
\<close>

definition init :: "nat \<times> nat \<Rightarrow> real \<Rightarrow> engine \<Rightarrow> engine" where
  "init canvas now s =
     (if destroyedRef s then s
      else s\<lparr> pixiRef := (pixiRef s)\<lparr> app := Some \<lparr> ticker_started = True,
                  renderer_size = (if fst canvas = 0 then 800 else fst canvas,
                                   if snd canvas = 0 then 600 else snd canvas),
                  background_alpha = 0, background_color = ''000000'', stage = [] \<rparr>,
                PIXI := True \<rparr>,
              startTimeRef := now \<rparr>)"

definition updateBackground :: "Application \<Rightarrow> DisplacementConfig \<Rightarrow> Application" where
  "updateBackground a config =
     (if bgTransparent config then a\<lparr> background_alpha := 0 \<rparr>
      else a\<lparr> background_alpha := 1,
              background_color := remove1 (CHR ''#'') (bgColor config) \<rparr>)"

text \<open>The ticker callback of the live loop, at time \<open>now\<close>.\<close>

definition ticker_callback :: "real \<Rightarrow> engine \<Rightarrow> engine" where
  "ticker_callback now s =
     (case filter_p (pixiRef s) of
        None \<Rightarrow> s
      | Some f \<Rightarrow>
          (let config = configRef s;
               t = live_t config (startTimeRef s) now
           in s\<lparr> pixiRef := (pixiRef s)\<lparr> filter_p := Some (f\<lparr> uTimeVec := timeVec t \<rparr>) \<rparr> \<rparr>))"

definition loadImage :: "source \<Rightarrow> engine \<Rightarrow> engine" where
  "loadImage src s =
     (case app (pixiRef s) of
        None \<Rightarrow> s
      | Some a \<Rightarrow>
          if \<not> PIXI (pixiRef s) then s
          else
            (let a1 = (case sprite (pixiRef s) of
                         None \<Rightarrow> a
                       | Some old \<Rightarrow> a\<lparr> stage := remove1 old (stage a) \<rparr>);
                 w = (case src of HTMLImageElement nw nh \<Rightarrow> nw | HTMLCanvasElement cw ch \<Rightarrow> cw);
                 h = (case src of HTMLImageElement nw nh \<Rightarrow> nh | HTMLCanvasElement cw ch \<Rightarrow> ch);
                 a2 = a1\<lparr> renderer_size := (w, h) \<rparr>;
                 config = configRef s;
                 f = \<lparr> uResolution = (real w, real h), uTimeVec = (1, 0),
                       uAmountPx = amountPx config, uSize = size_c config,
                       uOctaves = octaves config, uSpeed = speed config,
                       uSeed = seed config, uEdgeStrength = edgeStrength config,
                       uEdgeThreshold = edgeThreshold config,
                       padding = ceiling (amountPx config) + 2 \<rparr>;
                 a3 = a2\<lparr> stage := stage a2 @ [src] \<rparr>
             in s\<lparr> pixiRef := (pixiRef s)\<lparr> app := Some (updateBackground a3 config),
                         filter_p := Some f, sprite := Some src \<rparr> \<rparr>))"

text \<open>A partial configuration: the fields a caller of \<open>updateConfig\<close> gives.\<close>

record PartialConfig =
  p_amountPx :: "real option"
  p_size :: "real option"
  p_octaves :: "real option"
  p_speed :: "real option"
  p_seed :: "real option"
  p_edgeStrength :: "real option"
  p_edgeThreshold :: "real option"
  p_loopDuration :: "real option"
  p_fps :: "real option"
  p_bgTransparent :: "bool option"
  p_bgColor :: "string option"
  p_posterize :: "real option"

definition merge_config :: "DisplacementConfig \<Rightarrow> PartialConfig \<Rightarrow> DisplacementConfig" where
  "merge_config c p =
     \<lparr> amountPx = (case p_amountPx p of None \<Rightarrow> amountPx c | Some v \<Rightarrow> v),
       size_c = (case p_size p of None \<Rightarrow> size_c c | Some v \<Rightarrow> v),
       octaves = (case p_octaves p of None \<Rightarrow> octaves c | Some v \<Rightarrow> v),
       speed = (case p_speed p of None \<Rightarrow> speed c | Some v \<Rightarrow> v),
       seed = (case p_seed p of None \<Rightarrow> seed c | Some v \<Rightarrow> v),
       edgeStrength = (case p_edgeStrength p of None \<Rightarrow> edgeStrength c | Some v \<Rightarrow> v),
       edgeThreshold = (case p_edgeThreshold p of None \<Rightarrow> edgeThreshold c | Some v \<Rightarrow> v),
       loopDuration = (case p_loopDuration p of None \<Rightarrow> loopDuration c | Some v \<Rightarrow> v),
       fps = (case p_fps p of None \<Rightarrow> fps c | Some v \<Rightarrow> v),
       bgTransparent = (case p_bgTransparent p of None \<Rightarrow> bgTransparent c | Some v \<Rightarrow> v),
       bgColor = (case p_bgColor p of None \<Rightarrow> bgColor c | Some v \<Rightarrow> v),
       posterize = (case p_posterize p of None \<Rightarrow> posterize c | Some v \<Rightarrow> v) \<rparr>"

definition updateConfig :: "PartialConfig \<Rightarrow> engine \<Rightarrow> engine" where
  "updateConfig partial s =
     (let config = merge_config (configRef s) partial;
          r = pixiRef s;
          r1 = (case filter_p r of
                  None \<Rightarrow> r
                | Some f \<Rightarrow> r\<lparr> filter_p := Some (f\<lparr> uAmountPx := amountPx config,
                      uSize := size_c config, uOctaves := octaves config,
                      uSpeed := speed config, uSeed := seed config,
                      uEdgeStrength := edgeStrength config,
                      uEdgeThreshold := edgeThreshold config,
                      padding := ceiling (amountPx config) + 2 \<rparr>) \<rparr>);
          r2 = (case app r1 of
                  None \<Rightarrow> r1
                | Some a \<Rightarrow> r1\<lparr> app := Some (updateBackground a config) \<rparr>)
      in s\<lparr> configRef := config, pixiRef := r2 \<rparr>)"

definition destroy :: "engine \<Rightarrow> engine" where
  "destroy s =
     (let s1 = s\<lparr> destroyedRef := True \<rparr>
      in case app (pixiRef s1) of
           None \<Rightarrow> s1
         | Some a \<Rightarrow> s1\<lparr> pixiRef := (pixiRef s1)\<lparr> app := None, filter_p := None,
                                                     sprite := None \<rparr> \<rparr>)"

subsection \<open>exportFrames\<close>

text \<open>
  \<open>exportFrames\<close> is asynchronous: it runs until it waits for \<open>canvas.toBlob\<close>, and
  goes on when the browser answers with a blob or with \<open>null\<close>. A call in flight is its
  local variables: the frame count, the configuration it read on entry, the loop index
  and the blobs collected so far. A call is waiting for the blob of frame \<open>ec_i\<close>, or
  has resolved with its blobs, or has rejected with an error. The \<open>app\<close> and the
  \<open>filter\<close> the call read on entry are the objects \<open>pixiRef\<close> holds, and the model
  writes to them there. The teardown destroys that application before it clears
  \<open>pixiRef\<close>, and a destroyed PixiJS application has \<open>null\<close> for its \<open>renderer\<close> and
  its \<open>ticker\<close>: a call that goes on when \<open>pixiRef\<close> holds no application any more
  fails with a \<open>TypeError\<close> at \<open>app.renderer.render\<close>, or at \<open>app.ticker.start\<close> when
  the loop is over. (No second application is created while a call waits.)
\<close>

record export_call =
  ec_totalFrames :: real
  ec_config :: DisplacementConfig
  ec_i :: nat
  ec_blobs :: "bytes Blob list"

datatype 'a export_task =
    Awaiting export_call
  | Resolved 'a
  | Rejected js_error

definition ticker_set :: "bool \<Rightarrow> engine \<Rightarrow> engine" where
  "ticker_set b s =
     (case app (pixiRef s) of
        None \<Rightarrow> s
      | Some a \<Rightarrow> s\<lparr> pixiRef := (pixiRef s)\<lparr> app := Some (a\<lparr> ticker_started := b \<rparr>) \<rparr> \<rparr>)"

definition set_uTimeVec :: "real \<times> real \<Rightarrow> engine \<Rightarrow> engine" where
  "set_uTimeVec v s =
     (case filter_p (pixiRef s) of
        None \<Rightarrow> s
      | Some f \<Rightarrow> s\<lparr> pixiRef := (pixiRef s)\<lparr> filter_p := Some (f\<lparr> uTimeVec := v \<rparr>) \<rparr> \<rparr>)"

text \<open>
  The head of the \<open>for\<close> loop: while the index is below \<open>totalFrames\<close>, write the
  frame's \<open>uTimeVec\<close>, render and wait for the blob; after the loop, start the ticker,
  set the time origin to \<open>performance.now()\<close> (the argument \<open>now\<close>) and return the blobs.
  The render and the start of the ticker throw when the application has been destroyed.
\<close>

definition exportFrames_iter :: "real \<Rightarrow> engine \<Rightarrow> export_call \<Rightarrow> engine \<times> bytes Blob list export_task" where
  "exportFrames_iter now s c =
     (if real (ec_i c) < ec_totalFrames c
      then (let t = export_t (ec_config c) (ec_i c) (ec_totalFrames c);
                s1 = set_uTimeVec (timeVec t) s
            in if app (pixiRef s1) = None then (s1, Rejected TypeError)
               else (s1, Awaiting c))
      else if app (pixiRef s) = None then (s, Rejected TypeError)
      else ((ticker_set True s)\<lparr> startTimeRef := now \<rparr>, Resolved (ec_blobs c)))"

text \<open>Entry of a call, up to its first wait.\<close>

definition exportFrames_call :: "real \<Rightarrow> engine \<Rightarrow> real \<Rightarrow> engine \<times> bytes Blob list export_task" where
  "exportFrames_call now s totalFrames =
     (if app (pixiRef s) = None \<or> filter_p (pixiRef s) = None
      then (s, Rejected (Error ''Engine not initialized''))
      else exportFrames_iter now (ticker_set False s)
             \<lparr> ec_totalFrames = totalFrames, ec_config = configRef s, ec_i = 0, ec_blobs = [] \<rparr>)"

text \<open>A waiting call goes on with the browser's answer \<open>b\<close> to \<open>toBlob\<close>.\<close>

definition exportFrames_resume ::
    "real \<Rightarrow> engine \<Rightarrow> export_call \<Rightarrow> bytes Blob option \<Rightarrow> engine \<times> bytes Blob list export_task" where
  "exportFrames_resume now s c b =
     (case b of
        None \<Rightarrow> (s, Rejected (Error ''toBlob failed''))
      | Some blob \<Rightarrow>
          exportFrames_iter now s (c\<lparr> ec_blobs := ec_blobs c @ [blob], ec_i := ec_i c + 1 \<rparr>))"

text \<open>
  One call run to its end with nothing else in between. The browser is its answers:
  \<open>toBlob i\<close> for the frame of index \<open>i\<close>, and the value \<open>performance.now()\<close> has when
  the loop is over.
\<close>

record browser =
  toBlob :: "nat \<Rightarrow> bytes Blob option"
  performance_now :: real

function exportFrames_run :: "browser \<Rightarrow> engine \<Rightarrow> export_call \<Rightarrow> engine \<times> bytes Blob list export_task" where
  "exportFrames_run env s c =
     (case exportFrames_resume (performance_now env) s c (toBlob env (ec_i c)) of
        (s', Awaiting c') \<Rightarrow> exportFrames_run env s' c'
      | (s', Resolved bs) \<Rightarrow> (s', Resolved bs)
      | (s', Rejected e) \<Rightarrow> (s', Rejected e))"
  by pat_completeness auto

lemma exportFrames_iter_Awaiting:
  "exportFrames_iter now s c = (s', Awaiting c') \<Longrightarrow>
     c' = c \<and> real (ec_i c) < ec_totalFrames c"
  by (auto simp: exportFrames_iter_def Let_def split: if_splits)

lemma exportFrames_resume_Awaiting:
  "exportFrames_resume now s c b = (s', Awaiting c') \<Longrightarrow>
     (\<exists>blob. b = Some blob \<and> c' = c\<lparr> ec_blobs := ec_blobs c @ [blob], ec_i := ec_i c + 1 \<rparr>)
     \<and> real (ec_i c + 1) < ec_totalFrames c"
  by (cases b) (auto simp: exportFrames_resume_def dest!: exportFrames_iter_Awaiting)

lemma exportFrames_resume_measure:
  assumes "exportFrames_resume now s c b = (s', Awaiting c')"
  shows "nat (ceiling (ec_totalFrames c')) - ec_i c' < nat (ceiling (ec_totalFrames c)) - ec_i c"
proof -
  from exportFrames_resume_Awaiting [OF assms]
  obtain blob where c': "c' = c\<lparr> ec_blobs := ec_blobs c @ [blob], ec_i := ec_i c + 1 \<rparr>"
    and lt: "real (ec_i c + 1) < ec_totalFrames c" by blast
  have "ec_i c + 1 < nat (ceiling (ec_totalFrames c)) + 1"
    using lt by linarith
  then show ?thesis by (simp add: c')
qed

termination exportFrames_run
  by (relation "measure (\<lambda>(env, s, c). nat (ceiling (ec_totalFrames c)) - ec_i c)")
     (auto dest: exportFrames_resume_measure [OF sym])

declare exportFrames_run.simps [simp del]

text \<open>
  \<open>exportFrames(totalFrames)\<close> as one uninterrupted call: the promise it returns
  resolves with the blobs or rejects with an error.
\<close>

definition exportFrames :: "browser \<Rightarrow> engine \<Rightarrow> real \<Rightarrow> engine \<times> bytes Blob list export_task" where
  "exportFrames env s totalFrames =
     (case exportFrames_call (performance_now env) s totalFrames of
        (s', Awaiting c) \<Rightarrow> exportFrames_run env s' c
      | (s', Resolved bs) \<Rightarrow> (s', Resolved bs)
      | (s', Rejected e) \<Rightarrow> (s', Rejected e))"

text \<open>The local variables of a waiting call after one more blob has arrived.\<close>

definition next_call :: "export_call \<Rightarrow> bytes Blob \<Rightarrow> export_call" where
  "next_call c blob = c\<lparr> ec_blobs := ec_blobs c @ [blob], ec_i := ec_i c + 1 \<rparr>"

text \<open>
  An engine to run the operations on: initialised at time 0 on a canvas of 100 by 100,
  with a canvas of that size loaded as its image and the default configuration.
\<close>

definition engine_with_image :: engine where
  "engine_with_image = loadImage (HTMLCanvasElement 100 100) (init (100, 100) 0 new_engine)"

text \<open>
  The engine only ever holds a filter or a sprite while it holds an application:
  \<open>loadImage\<close> creates them when \<open>app\<close> is there, and the teardown clears all three.
\<close>

definition refs_ok :: "engine \<Rightarrow> bool" where
  "refs_ok s = (app (pixiRef s) = None \<longrightarrow>
                  filter_p (pixiRef s) = None \<and> sprite (pixiRef s) = None)"

text \<open>
  Browsers to run an export in. A still image is told apart by one byte, its frame index.
  In \<open>browser_ok\<close> every extraction succeeds; in \<open>browser_failing_from k\<close> the
  extractions of the frames from index \<open>k\<close> on answer \<open>null\<close>.
\<close>

definition png_of :: "nat \<Rightarrow> bytes Blob" where
  "png_of i = \<lparr> blob_data = [i], blob_type = ''image/png'' \<rparr>"

definition browser_ok :: "real \<Rightarrow> browser" where
  "browser_ok now = \<lparr> toBlob = (\<lambda>i. Some (png_of i)), performance_now = now \<rparr>"

definition browser_failing_from :: "nat \<Rightarrow> real \<Rightarrow> browser" where
  "browser_failing_from k now =
     \<lparr> toBlob = (\<lambda>i. if i < k then Some (png_of i) else None), performance_now = now \<rparr>"

text \<open>The local variables of a call for \<open>n\<close> frames that waits for its first blob.\<close>

definition first_wait :: "real \<Rightarrow> export_call" where
  "first_wait n = \<lparr> ec_totalFrames = n, ec_config = DEFAULT_CONFIG, ec_i = 0, ec_blobs = [] \<rparr>"

text \<open>
  An export is in flight in a state of the engine: a call has been entered and waits
  for a blob, with nothing but its own steps since.
\<close>

inductive in_flight :: "engine \<Rightarrow> export_call \<Rightarrow> bool" where
  entered: "exportFrames_call now s totalFrames = (s', Awaiting c) \<Longrightarrow> in_flight s' c"
| resumed: "in_flight s c \<Longrightarrow> exportFrames_resume now s c b = (s', Awaiting c') \<Longrightarrow>
            in_flight s' c'"

text \<open>The partial configuration that changes nothing.\<close>

definition no_change :: PartialConfig where
  "no_change = \<lparr> p_amountPx = None, p_size = None, p_octaves = None,
         p_speed = None, p_seed = None, p_edgeStrength = None, p_edgeThreshold = None,
         p_loopDuration = None, p_fps = None, p_bgTransparent = None, p_bgColor = None,
         p_posterize = None \<rparr>"

section \<open>Export panel (components/ExportPanel.tsx)\<close>

text \<open>
  The panel keeps which export is in flight. \<open>handleExport\<close> sets it on entry and
  clears it in its \<open>finally\<close> block, on success and on failure; both buttons are
  disabled while there is no image or an export is in flight.
\<close>

datatype export_kind = webm | png

record ExportPanel =
  exporting :: "export_kind option"

definition button_disabled :: "bool \<Rightarrow> ExportPanel \<Rightarrow> bool" where
  "button_disabled hasImage p = (\<not> hasImage \<or> exporting p \<noteq> None)"

definition handleExport_begin :: "export_kind \<Rightarrow> ExportPanel \<Rightarrow> ExportPanel" where
  "handleExport_begin k p = p\<lparr> exporting := Some k \<rparr>"

definition handleExport_finally :: "ExportPanel \<Rightarrow> ExportPanel" where
  "handleExport_finally p = p\<lparr> exporting := None \<rparr>"

section \<open>Fragment shader (displacementShader)\<close>

text \<open>
  GLSL vectors are tuples of reals and the built-in functions are written out
  componentwise: \<open>floor\<close>, \<open>fract\<close>, \<open>dot\<close>, \<open>clamp\<close>, \<open>smoothstep\<close>, \<open>mix\<close>,
  \<open>length\<close>. The uniforms of the shader are the fields of the filter.
\<close>

type_synonym vec2 = "real \<times> real"
type_synonym vec3 = "real \<times> real \<times> real"
type_synonym vec4 = "real \<times> real \<times> real \<times> real"

definition floor_f :: "real \<Rightarrow> real" where
  "floor_f x = of_int (floor x)"

definition fract :: "real \<Rightarrow> real" where
  "fract x = x - floor_f x"

definition mod289 :: "real \<Rightarrow> real" where
  "mod289 x = x - floor_f (x * (1.0 / 289.0)) * 289.0"

definition permute :: "real \<Rightarrow> real" where
  "permute x = mod289 (((x * 34.0) + 1.0) * x)"

definition map3 :: "(real \<Rightarrow> real) \<Rightarrow> vec3 \<Rightarrow> vec3" where
  "map3 f v = (case v of (a, b, c) \<Rightarrow> (f a, f b, f c))"

definition dot2 :: "vec2 \<Rightarrow> vec2 \<Rightarrow> real" where
  "dot2 a b = fst a * fst b + snd a * snd b"

definition dot3 :: "vec3 \<Rightarrow> vec3 \<Rightarrow> real" where
  "dot3 a b = (case a of (a1, a2, a3) \<Rightarrow> case b of (b1, b2, b3) \<Rightarrow> a1 * b1 + a2 * b2 + a3 * b3)"

definition snoise :: "vec2 \<Rightarrow> real" where
  "snoise v =
     (let Cx = 0.211324865405187; Cy = 0.366025403784439;
          Cz = - 0.577350269189626; Cw = 0.024390243902439;
          i = (floor_f (fst v + dot2 v (Cy, Cy)), floor_f (snd v + dot2 v (Cy, Cy)));
          x0 = (fst v - fst i + dot2 i (Cx, Cx), snd v - snd i + dot2 i (Cx, Cx));
          i1 = (if fst x0 > snd x0 then (1.0, 0.0) else (0.0, 1.0));
          x12xy = (fst x0 + Cx - fst i1, snd x0 + Cx - snd i1);
          x12zw = (fst x0 + Cz, snd x0 + Cz);
          i = (mod289 (fst i), mod289 (snd i));
          p = map3 permute
                (case map3 permute (snd i + 0.0, snd i + snd i1, snd i + 1.0) of
                   (q1, q2, q3) \<Rightarrow> (q1 + fst i + 0.0, q2 + fst i + fst i1, q3 + fst i + 1.0));
          m = map3 (\<lambda>d. max (0.5 - d) 0.0) (dot2 x0 x0, dot2 x12xy x12xy, dot2 x12zw x12zw);
          m = map3 (\<lambda>c. c * c) m;
          m = map3 (\<lambda>c. c * c) m;
          x = map3 (\<lambda>c. 2.0 * fract (c * Cw) - 1.0) p;
          h = map3 (\<lambda>c. abs c - 0.5) x;
          ox = map3 (\<lambda>c. floor_f (c + 0.5)) x;
          a0 = (case x of (x1, x2, x3) \<Rightarrow> case ox of (o1, o2, o3) \<Rightarrow> (x1 - o1, x2 - o2, x3 - o3));
          m = (case m of (m1, m2, m3) \<Rightarrow> case a0 of (a1, a2, a3) \<Rightarrow> case h of (h1, h2, h3) \<Rightarrow>
                 (m1 * (1.79284291400159 - 0.85373472095314 * (a1 * a1 + h1 * h1)),
                  m2 * (1.79284291400159 - 0.85373472095314 * (a2 * a2 + h2 * h2)),
                  m3 * (1.79284291400159 - 0.85373472095314 * (a3 * a3 + h3 * h3))));
          g = (case a0 of (a1, a2, a3) \<Rightarrow> case h of (h1, h2, h3) \<Rightarrow>
                 (a1 * fst x0 + h1 * snd x0,
                  a2 * fst x12xy + h2 * snd x12xy,
                  a3 * fst x12zw + h3 * snd x12zw))
      in 130.0 * dot3 m g)"

text \<open>
  The loop of \<open>fbm\<close>: at most 8 rounds, left at the first index that reaches the octave
  count \<open>int(uOctaves)\<close>.
\<close>

function fbm_loop :: "int \<Rightarrow> vec2 \<Rightarrow> nat \<Rightarrow> real \<Rightarrow> real \<Rightarrow> real \<Rightarrow> real" where
  "fbm_loop octs p i val amplitude frequency =
     (if i < 8
      then (if int i \<ge> octs then val
            else fbm_loop octs p (i + 1)
                   (val + amplitude * snoise (fst p * frequency, snd p * frequency))
                   (amplitude * 0.5) (frequency * 2.0))
      else val)"
  by pat_completeness auto
termination
  by (relation "measure (\<lambda>(octs, p, i, val, amplitude, frequency). 8 - i)") auto

declare fbm_loop.simps [simp del]

definition fbm :: "Filter \<Rightarrow> vec2 \<Rightarrow> real" where
  "fbm u p = fbm_loop (trunc (uOctaves u)) p 0 0.0 0.5 1.0"

text \<open>
  \<open>main\<close>, local by local. A sampler is the texture as a function from a coordinate to
  a colour with alpha. \<open>displacement_unmasked\<close> is the local \<open>displacement\<close> as first
  assigned, in texture units; \<open>displacement\<close> is its value after the edge mask has
  been multiplied in; \<open>main_frag\<close> is the colour written to \<open>gl_FragColor\<close>.
\<close>

type_synonym sampler2D = "vec2 \<Rightarrow> vec4"

definition alpha :: "vec4 \<Rightarrow> real" where
  "alpha c = (case c of (r, g, b, a) \<Rightarrow> a)"

definition clamp :: "real \<Rightarrow> real \<Rightarrow> real \<Rightarrow> real" where
  "clamp x lo hi = min (max x lo) hi"

definition smoothstep :: "real \<Rightarrow> real \<Rightarrow> real \<Rightarrow> real" where
  "smoothstep edge0 edge1 x =
     (let t = clamp ((x - edge0) / (edge1 - edge0)) 0.0 1.0 in t * t * (3.0 - 2.0 * t))"

definition mix :: "real \<Rightarrow> real \<Rightarrow> real \<Rightarrow> real" where
  "mix x y a = x * (1 - a) + y * a"

definition length2 :: "vec2 \<Rightarrow> real" where
  "length2 v = sqrt (fst v * fst v + snd v * snd v)"

definition pixelSize :: "Filter \<Rightarrow> vec2" where
  "pixelSize u = (1.0 / fst (uResolution u), 1.0 / snd (uResolution u))"

definition noiseCoord :: "Filter \<Rightarrow> vec2 \<Rightarrow> vec2" where
  "noiseCoord u uv =
     (let circularTime = (fst (uTimeVec u) * uSpeed u, snd (uTimeVec u) * uSpeed u)
      in (fst uv * fst (uResolution u) / uSize u + fst circularTime + uSeed u,
          snd uv * snd (uResolution u) / uSize u + snd circularTime + uSeed u))"

definition displacement_unmasked :: "Filter \<Rightarrow> vec2 \<Rightarrow> vec2" where
  "displacement_unmasked u uv =
     (let noiseX = fbm u (noiseCoord u uv);
          noiseY = fbm u (fst (noiseCoord u uv) + 43.0, snd (noiseCoord u uv) + 17.0)
      in (noiseX * uAmountPx u * fst (pixelSize u), noiseY * uAmountPx u * snd (pixelSize u)))"

definition edgeMask :: "Filter \<Rightarrow> sampler2D \<Rightarrow> vec2 \<Rightarrow> real" where
  "edgeMask u uSampler uv =
     (let aL = alpha (uSampler (fst uv + - fst (pixelSize u), snd uv + 0.0));
          aR = alpha (uSampler (fst uv + fst (pixelSize u), snd uv + 0.0));
          aU = alpha (uSampler (fst uv + 0.0, snd uv + - snd (pixelSize u)));
          aD = alpha (uSampler (fst uv + 0.0, snd uv + snd (pixelSize u)));
          gradient = length2 (aR - aL, aD - aU)
      in smoothstep (uEdgeThreshold u) (uEdgeThreshold u + 0.15) gradient)"

definition displacement :: "Filter \<Rightarrow> sampler2D \<Rightarrow> vec2 \<Rightarrow> vec2" where
  "displacement u uSampler uv =
     (let k = mix 1.0 (edgeMask u uSampler uv) (uEdgeStrength u)
      in (fst (displacement_unmasked u uv) * k, snd (displacement_unmasked u uv) * k))"

definition main_frag :: "Filter \<Rightarrow> sampler2D \<Rightarrow> vec2 \<Rightarrow> vec4" where
  "main_frag u uSampler vTextureCoord =
     (let uv = vTextureCoord;
          d = displacement u uSampler uv
      in uSampler (fst uv + fst d, snd uv + snd d))"

definition uniforms_ok :: "Filter \<Rightarrow> bool" where
  "uniforms_ok u = (0 < fst (uResolution u) \<and> 0 < snd (uResolution u) \<and> uSize u \<noteq> 0)"

text \<open>The uniforms \<open>loadImage\<close> sets for the default configuration and a 100 by 100 image.\<close>

definition default_uniforms :: Filter where
  "default_uniforms = \<lparr> uResolution = (100, 100), uTimeVec = (1, 0),
       uAmountPx = 4, uSize = 20, uOctaves = 3, uSpeed = 1, uSeed = 0, uEdgeStrength = 0,
       uEdgeThreshold = 1 / 10, padding = 6 \<rparr>"

text \<open>A fully opaque white texture.\<close>

definition opaque_white :: sampler2D where
  "opaque_white = (\<lambda>uv. (1, 1, 1, 1))"

section \<open>Still-sequence export (exportPngSequence)\<close>














section \<open>Video export (lib/exportWebm.ts)\<close>

text \<open>
  The browser of the video export is its answers: whether a MIME type is supported,
  whether the constructor of \<open>MediaRecorder\<close> throws for a MIME type, the bitmap
  \<open>createImageBitmap\<close> decodes from a frame (or its rejection), and the chunks the
  recorder delivers for the frames pushed to it (or its error). The pacing by
  \<open>sleep(1000 / fps)\<close> is time only, and the frame rate goes to the recorder's answer.
\<close>

record media_browser =
  isTypeSupported :: "string \<Rightarrow> bool"
  new_MediaRecorder :: "string \<Rightarrow> js_error option"
  createImageBitmap :: "bytes Blob \<Rightarrow> js_error + bytes"
  recorded :: "string \<Rightarrow> nat \<times> nat \<Rightarrow> real \<Rightarrow> bytes list \<Rightarrow> js_error + bytes list"

fun draw_frames :: "media_browser \<Rightarrow> bytes Blob list \<Rightarrow> js_error + bytes list" where
  "draw_frames env [] = Inr []"
| "draw_frames env (frameBlob # frames) =
     (case createImageBitmap env frameBlob of
        Inl e \<Rightarrow> Inl e
      | Inr bitmap \<Rightarrow>
          (case draw_frames env frames of
             Inl e \<Rightarrow> Inl e
           | Inr pushed \<Rightarrow> Inr (bitmap # pushed)))"

definition exportWebm ::
    "media_browser \<Rightarrow> bytes Blob list \<Rightarrow> nat \<Rightarrow> nat \<Rightarrow> real \<Rightarrow> js_error + bytes list Blob" where
  "exportWebm env frames width height fps' =
     (let mimeType = (if isTypeSupported env ''video/webm;codecs=vp9''
                      then ''video/webm;codecs=vp9'' else ''video/webm'')
      in case new_MediaRecorder env mimeType of
           Some e \<Rightarrow> Inl e
         | None \<Rightarrow>
             (case draw_frames env frames of
                Inl e \<Rightarrow> Inl e
              | Inr pushed \<Rightarrow>
                  (case recorded env mimeType (width, height) fps' pushed of
                     Inl e \<Rightarrow> Inl e
                   | Inr chunks \<Rightarrow>
                       Inr \<lparr> blob_data = filter (\<lambda>data. length data > 0) chunks,
                             blob_type = mimeType \<rparr>)))"

text \<open>A browser that records \<open>video/webm\<close> but not VP9.\<close>

definition browser_without_vp9 :: media_browser where
  "browser_without_vp9 =
     \<lparr> isTypeSupported = (\<lambda>t. t = ''video/webm''),
       new_MediaRecorder = (\<lambda>t. None),
       createImageBitmap = (\<lambda>b. Inr (blob_data b)),
       recorded = (\<lambda>t sz fps pushed. Inr [concat pushed]) \<rparr>"

section \<open>What the writes of an export leave unchanged\<close>

lemma set_uTimeVec_frame [simp]:
  "app (pixiRef (set_uTimeVec v s)) = app (pixiRef s)"
  "configRef (set_uTimeVec v s) = configRef s"
  "startTimeRef (set_uTimeVec v s) = startTimeRef s"
  "destroyedRef (set_uTimeVec v s) = destroyedRef s"
  "filter_p (pixiRef (set_uTimeVec v s)) = map_option (\<lambda>f. f\<lparr> uTimeVec := v \<rparr>) (filter_p (pixiRef s))"
  by (simp_all add: set_uTimeVec_def split: option.splits)

lemma ticker_set_frame [simp]:
  "app (pixiRef (ticker_set b s)) = map_option (\<lambda>a. a\<lparr> ticker_started := b \<rparr>) (app (pixiRef s))"
  "configRef (ticker_set b s) = configRef s"
  "startTimeRef (ticker_set b s) = startTimeRef s"
  "destroyedRef (ticker_set b s) = destroyedRef s"
  "filter_p (pixiRef (ticker_set b s)) = filter_p (pixiRef s)"
  by (simp_all add: ticker_set_def split: option.splits)

lemma exportFrames_iter_cases:
  "exportFrames_iter now s c =
     (if real (ec_i c) < ec_totalFrames c
      then (set_uTimeVec (timeVec (export_t (ec_config c) (ec_i c) (ec_totalFrames c))) s,
            if app (pixiRef s) = None then Rejected TypeError else Awaiting c)
      else if app (pixiRef s) = None then (s, Rejected TypeError)
      else ((ticker_set True s)\<lparr> startTimeRef := now \<rparr>, Resolved (ec_blobs c)))"
  by (simp add: exportFrames_iter_def Let_def)

text \<open>The engine with an image, field by field.\<close>

lemma engine_with_image_refs:
  "app (pixiRef engine_with_image) = Some \<lparr> ticker_started = True, renderer_size = (100, 100),
       background_alpha = 0, background_color = ''000000'', stage = [HTMLCanvasElement 100 100] \<rparr>"
  "filter_p (pixiRef engine_with_image) = Some \<lparr> uResolution = (100, 100), uTimeVec = (1, 0),
       uAmountPx = 4, uSize = 20, uOctaves = 3, uSpeed = 1, uSeed = 0, uEdgeStrength = 0,
       uEdgeThreshold = 1 / 10, padding = 6 \<rparr>"
  "configRef engine_with_image = DEFAULT_CONFIG"
  "startTimeRef engine_with_image = 0"
  "destroyedRef engine_with_image = False"
  by (simp_all add: engine_with_image_def loadImage_def init_def new_engine_def
        updateBackground_def DEFAULT_CONFIG_def Let_def)

section \<open>Properties of the double arithmetic\<close>

lemma fl_0 [simp]: "fl 0 = 0"
  by (simp add: fl_def)

lemma floor_log2_eq:
  assumes "0 < x" "2 powi e \<le> x" "x < 2 powi (e + 1)"
  shows "floor (log 2 x) = e"
proof -
  have a: "(2::real) powr (of_int e) = 2 powi e"
    by (rule powr_real_of_int') simp_all
  have "(2::real) powr (of_int (e + 1)) = 2 powi (e + 1)"
    by (rule powr_real_of_int') simp_all
  then have b: "(2::real) powr (of_int e + 1) = 2 powi (e + 1)" by simp
  have "2 powr (of_int e) \<le> x \<and> x < 2 powr (of_int e + 1)"
    using assms by (simp only: a b)
  then show ?thesis using assms(1) by (simp add: floor_log_eq_powr_iff)
qed

lemma fl_eval:
  assumes "2 powi e \<le> \<bar>x\<bar>" "\<bar>x\<bar> < 2 powi (e + 1)"
  shows "fl x = of_int (round_even (x / 2 powi (e - 52))) * 2 powi (e - 52)"
proof -
  have "0 < \<bar>x\<bar>" using assms(1) by (smt (verit) zero_less_power_int)
  then have "floor (log 2 \<bar>x\<bar>) = e" using assms by (intro floor_log2_eq)
  moreover have "x \<noteq> 0" using \<open>0 < \<bar>x\<bar>\<close> by auto
  ultimately show ?thesis by (simp add: fl_def)
qed

lemma round_even_near:
  assumes "of_int n - 1 / 2 < y" "y < of_int n + 1 / 2"
  shows "round_even y = n"
proof (cases "of_int n \<le> y")
  case True
  then have "floor y = n" using assms(2) by linarith
  then show ?thesis using assms(2) by (simp add: round_even_def)
next
  case False
  then have "floor y = n - 1" using assms(1) by linarith
  then show ?thesis using assms(1) False by (simp add: round_even_def)
qed

lemma round_even_int [simp]: "round_even (of_int n) = n"
  by (rule round_even_near) simp_all

lemma round_even_numeral [simp]: "round_even (numeral k) = numeral k"
  using round_even_int [of "numeral k"] by simp






lemma fl_1 [simp]: "fl 1 = 1"
  by (subst fl_eval [where e = 0]) (simp_all add: power_int_minus)

lemma cos_ge_partial:
  assumes "0 < x" "0 < n"
  shows "(\<Sum>m<n. cos_coeff m * x ^ m) - x ^ n / fact n \<le> cos x"
    and "cos x \<le> (\<Sum>m<n. cos_coeff m * x ^ m) + x ^ n / fact n"
proof -
  from Maclaurin_cos_expansion2 [OF assms] obtain t where
    c: "cos x = (\<Sum>m<n. cos_coeff m * x ^ m) + (cos (t + 1/2 * real n * pi) / fact n) * x ^ n"
    by blast
  have nn: "0 \<le> x ^ n / fact n" using assms(1) by simp
  have "- 1 \<le> cos (t + 1/2 * real n * pi)" by simp
  then have "- 1 * (x ^ n / fact n) \<le> cos (t + 1/2 * real n * pi) * (x ^ n / fact n)"
    using nn by (rule mult_right_mono)
  with c show "(\<Sum>m<n. cos_coeff m * x ^ m) - x ^ n / fact n \<le> cos x" by simp
  have "cos (t + 1/2 * real n * pi) \<le> 1" by simp
  then have "cos (t + 1/2 * real n * pi) * (x ^ n / fact n) \<le> 1 * (x ^ n / fact n)"
    using nn by (rule mult_right_mono)
  with c show "cos x \<le> (\<Sum>m<n. cos_coeff m * x ^ m) + x ^ n / fact n" by simp
qed

lemma sum_pair: "(\<Sum>m<Suc (Suc n). f m) = (\<Sum>m<n. f m) + f n + (f (Suc n) :: real)"
  by simp

lemma cos_partial_24:
  "(\<Sum>m<24. cos_coeff m * x ^ m)
     = 1 - x^2 / 2 + x^4 / 24 - x^6 / 720 + x^8 / 40320 - x^10 / 3628800 + x^12 / 479001600
       - x^14 / 87178291200 + x^16 / 20922789888000 - x^18 / 6402373705728000
       + x^20 / 2432902008176640000 - x^22 / 1124000727777607680000"
proof -
  have "(24::nat) = Suc (Suc (Suc (Suc (Suc (Suc (Suc (Suc (Suc (Suc (Suc (Suc (Suc (Suc (Suc (Suc (Suc (Suc (Suc (Suc (Suc (Suc (Suc (Suc 0)))))))))))))))))))))))"
    by simp
  then show ?thesis
    by (simp only: sum_pair) (simp add: cos_coeff_def fact_numeral flip: numeral_2_eq_2)
qed

lemma cos_horner_24:
  fixes x :: real
  shows "(\<Sum>m<24. cos_coeff m * x ^ m)
     = 1 - x\<^sup>2 / 2 * (1 - x\<^sup>2 / 12 * (1 - x\<^sup>2 / 30 * (1 - x\<^sup>2 / 56 * (1 - x\<^sup>2 / 90 *
        (1 - x\<^sup>2 / 132 * (1 - x\<^sup>2 / 182 * (1 - x\<^sup>2 / 240 * (1 - x\<^sup>2 / 306 *
        (1 - x\<^sup>2 / 380 * (1 - x\<^sup>2 / 462))))))))))"
  by (simp add: cos_partial_24 field_simps)

text \<open>
  Where \<open>Math.PI\<close> lies: the cosine at \<open>Math.PI / 2\<close> is positive and the cosine half
  an ulp further on is negative, each by the Taylor polynomial of degree 22 and its
  remainder, the polynomial bounded in Horner form with 110 binary digits.
\<close>

lemma cos_below_half_pi: "0 < cos (884279719003555 / 562949953421312 :: real)"
proof -
  define x :: real where "x = 884279719003555 / 562949953421312"
  define y :: real where "y = 781950621441006189802102638025 / 316912650057057350374175801344"
  have y0: "0 \<le> y" unfolding y_def by simp
  define h11 where "h11 = 1 - y / 462"
  have b11: "1291141596137121709397928384457945 / 1298074214633706907132624082305024 \<le> h11" "h11 \<le> 645570798068560854698964192228973 / 649037107316853453566312041152512"
    unfolding h11_def y_def by simp_all
  define h10 where "h10 = 1 - y / 380 * h11"
  have b10: "644845312323542771112757925874269 / 649037107316853453566312041152512 \<le> h10" "h10 \<le> 1289690624647085542225515851748539 / 1298074214633706907132624082305024"
  proof -
    have c: "0 \<le> y / 380" using y0 by simp
    have "y / 380 * h11 \<le> y / 380 * (645570798068560854698964192228973 / 649037107316853453566312041152512)"
      using b11(2) c by (rule mult_left_mono)
    moreover have "644845312323542771112757925874269 / 649037107316853453566312041152512 \<le> 1 - y / 380 * (645570798068560854698964192228973 / 649037107316853453566312041152512)"
      unfolding y_def by simp
    ultimately show "644845312323542771112757925874269 / 649037107316853453566312041152512 \<le> h10" unfolding h10_def by linarith
    have "y / 380 * (1291141596137121709397928384457945 / 1298074214633706907132624082305024) \<le> y / 380 * h11"
      using b11(1) c by (rule mult_left_mono)
    moreover have "1 - y / 380 * (1291141596137121709397928384457945 / 1298074214633706907132624082305024) \<le> 1289690624647085542225515851748539 / 1298074214633706907132624082305024"
      unfolding y_def by simp
    ultimately show "h10 \<le> 1289690624647085542225515851748539 / 1298074214633706907132624082305024" unfolding h10_def by linarith
  qed
  define h9 where "h9 = 1 - y / 306 * h10"
  have b9: "1287674920299507104420255900389135 / 1298074214633706907132624082305024 \<le> h9" "h9 \<le> 80479682518719194026265993774321 / 81129638414606681695789005144064"
  proof -
    have c: "0 \<le> y / 306" using y0 by simp
    have "y / 306 * h10 \<le> y / 306 * (1289690624647085542225515851748539 / 1298074214633706907132624082305024)"
      using b10(2) c by (rule mult_left_mono)
    moreover have "1287674920299507104420255900389135 / 1298074214633706907132624082305024 \<le> 1 - y / 306 * (1289690624647085542225515851748539 / 1298074214633706907132624082305024)"
      unfolding y_def by simp
    ultimately show "1287674920299507104420255900389135 / 1298074214633706907132624082305024 \<le> h9" unfolding h9_def by linarith
    have "y / 306 * (644845312323542771112757925874269 / 649037107316853453566312041152512) \<le> y / 306 * h10"
      using b10(1) c by (rule mult_left_mono)
    moreover have "1 - y / 306 * (644845312323542771112757925874269 / 649037107316853453566312041152512) \<le> 80479682518719194026265993774321 / 81129638414606681695789005144064"
      unfolding y_def by simp
    ultimately show "h9 \<le> 80479682518719194026265993774321 / 81129638414606681695789005144064" unfolding h9_def by linarith
  qed
  define h8 where "h8 = 1 - y / 240 * h9"
  have b8: "642417918743644910119709073166869 / 649037107316853453566312041152512 \<le> h8" "h8 \<le> 1284835837487289820239418146333739 / 1298074214633706907132624082305024"
  proof -
    have c: "0 \<le> y / 240" using y0 by simp
    have "y / 240 * h9 \<le> y / 240 * (80479682518719194026265993774321 / 81129638414606681695789005144064)"
      using b9(2) c by (rule mult_left_mono)
    moreover have "642417918743644910119709073166869 / 649037107316853453566312041152512 \<le> 1 - y / 240 * (80479682518719194026265993774321 / 81129638414606681695789005144064)"
      unfolding y_def by simp
    ultimately show "642417918743644910119709073166869 / 649037107316853453566312041152512 \<le> h8" unfolding h8_def by linarith
    have "y / 240 * (1287674920299507104420255900389135 / 1298074214633706907132624082305024) \<le> y / 240 * h9"
      using b9(1) c by (rule mult_left_mono)
    moreover have "1 - y / 240 * (1287674920299507104420255900389135 / 1298074214633706907132624082305024) \<le> 1284835837487289820239418146333739 / 1298074214633706907132624082305024"
      unfolding y_def by simp
    ultimately show "h8 \<le> 1284835837487289820239418146333739 / 1298074214633706907132624082305024" unfolding h8_def by linarith
  qed
  define h7 where "h7 = 1 - y / 182 * h8"
  have b7: "640327751934750509501323056099475 / 649037107316853453566312041152512 \<le> h7" "h7 \<le> 1280655503869501019002646112198951 / 1298074214633706907132624082305024"
  proof -
    have c: "0 \<le> y / 182" using y0 by simp
    have "y / 182 * h8 \<le> y / 182 * (1284835837487289820239418146333739 / 1298074214633706907132624082305024)"
      using b8(2) c by (rule mult_left_mono)
    moreover have "640327751934750509501323056099475 / 649037107316853453566312041152512 \<le> 1 - y / 182 * (1284835837487289820239418146333739 / 1298074214633706907132624082305024)"
      unfolding y_def by simp
    ultimately show "640327751934750509501323056099475 / 649037107316853453566312041152512 \<le> h7" unfolding h7_def by linarith
    have "y / 182 * (642417918743644910119709073166869 / 649037107316853453566312041152512) \<le> y / 182 * h8"
      using b8(1) c by (rule mult_left_mono)
    moreover have "1 - y / 182 * (642417918743644910119709073166869 / 649037107316853453566312041152512) \<le> 1280655503869501019002646112198951 / 1298074214633706907132624082305024"
      unfolding y_def by simp
    ultimately show "h7 \<le> 1280655503869501019002646112198951 / 1298074214633706907132624082305024" unfolding h7_def by linarith
  qed
  define h6 where "h6 = 1 - y / 132 * h7"
  have b6: "1274135647972211194237875438676189 / 1298074214633706907132624082305024 \<le> h6" "h6 \<le> 637067823986105597118937719338095 / 649037107316853453566312041152512"
  proof -
    have c: "0 \<le> y / 132" using y0 by simp
    have "y / 132 * h7 \<le> y / 132 * (1280655503869501019002646112198951 / 1298074214633706907132624082305024)"
      using b7(2) c by (rule mult_left_mono)
    moreover have "1274135647972211194237875438676189 / 1298074214633706907132624082305024 \<le> 1 - y / 132 * (1280655503869501019002646112198951 / 1298074214633706907132624082305024)"
      unfolding y_def by simp
    ultimately show "1274135647972211194237875438676189 / 1298074214633706907132624082305024 \<le> h6" unfolding h6_def by linarith
    have "y / 132 * (640327751934750509501323056099475 / 649037107316853453566312041152512) \<le> y / 132 * h7"
      using b7(1) c by (rule mult_left_mono)
    moreover have "1 - y / 132 * (640327751934750509501323056099475 / 649037107316853453566312041152512) \<le> 637067823986105597118937719338095 / 649037107316853453566312041152512"
      unfolding y_def by simp
    ultimately show "h6 \<le> 637067823986105597118937719338095 / 649037107316853453566312041152512" unfolding h6_def by linarith
  qed
  define h5 where "h5 = 1 - y / 90 * h6"
  have b5: "631571531207393208636235339813793 / 649037107316853453566312041152512 \<le> h5" "h5 \<le> 1263143062414786417272470679627587 / 1298074214633706907132624082305024"
  proof -
    have c: "0 \<le> y / 90" using y0 by simp
    have "y / 90 * h6 \<le> y / 90 * (637067823986105597118937719338095 / 649037107316853453566312041152512)"
      using b6(2) c by (rule mult_left_mono)
    moreover have "631571531207393208636235339813793 / 649037107316853453566312041152512 \<le> 1 - y / 90 * (637067823986105597118937719338095 / 649037107316853453566312041152512)"
      unfolding y_def by simp
    ultimately show "631571531207393208636235339813793 / 649037107316853453566312041152512 \<le> h5" unfolding h5_def by linarith
    have "y / 90 * (1274135647972211194237875438676189 / 1298074214633706907132624082305024) \<le> y / 90 * h6"
      using b6(1) c by (rule mult_left_mono)
    moreover have "1 - y / 90 * (1274135647972211194237875438676189 / 1298074214633706907132624082305024) \<le> 1263143062414786417272470679627587 / 1298074214633706907132624082305024"
      unfolding y_def by simp
    ultimately show "h5 \<le> 1263143062414786417272470679627587 / 1298074214633706907132624082305024" unfolding h5_def by linarith
  qed
  define h4 where "h4 = 1 - y / 56 * h5"
  have b4: "1242419204240785186334023023591531 / 1298074214633706907132624082305024 \<le> h4" "h4 \<le> 310604801060196296583505755897883 / 324518553658426726783156020576256"
  proof -
    have c: "0 \<le> y / 56" using y0 by simp
    have "y / 56 * h5 \<le> y / 56 * (1263143062414786417272470679627587 / 1298074214633706907132624082305024)"
      using b5(2) c by (rule mult_left_mono)
    moreover have "1242419204240785186334023023591531 / 1298074214633706907132624082305024 \<le> 1 - y / 56 * (1263143062414786417272470679627587 / 1298074214633706907132624082305024)"
      unfolding y_def by simp
    ultimately show "1242419204240785186334023023591531 / 1298074214633706907132624082305024 \<le> h4" unfolding h4_def by linarith
    have "y / 56 * (631571531207393208636235339813793 / 649037107316853453566312041152512) \<le> y / 56 * h5"
      using b5(1) c by (rule mult_left_mono)
    moreover have "1 - y / 56 * (631571531207393208636235339813793 / 649037107316853453566312041152512) \<le> 310604801060196296583505755897883 / 324518553658426726783156020576256"
      unfolding y_def by simp
    ultimately show "h4 \<le> 310604801060196296583505755897883 / 324518553658426726783156020576256" unfolding h4_def by linarith
  qed
  define h3 where "h3 = 1 - y / 30 * h4"
  have b3: "1195889330915600313408956435379073 / 1298074214633706907132624082305024 \<le> h3" "h3 \<le> 597944665457800156704478217689537 / 649037107316853453566312041152512"
  proof -
    have c: "0 \<le> y / 30" using y0 by simp
    have "y / 30 * h4 \<le> y / 30 * (310604801060196296583505755897883 / 324518553658426726783156020576256)"
      using b4(2) c by (rule mult_left_mono)
    moreover have "1195889330915600313408956435379073 / 1298074214633706907132624082305024 \<le> 1 - y / 30 * (310604801060196296583505755897883 / 324518553658426726783156020576256)"
      unfolding y_def by simp
    ultimately show "1195889330915600313408956435379073 / 1298074214633706907132624082305024 \<le> h3" unfolding h3_def by linarith
    have "y / 30 * (1242419204240785186334023023591531 / 1298074214633706907132624082305024) \<le> y / 30 * h4"
      using b4(1) c by (rule mult_left_mono)
    moreover have "1 - y / 30 * (1242419204240785186334023023591531 / 1298074214633706907132624082305024) \<le> 597944665457800156704478217689537 / 649037107316853453566312041152512"
      unfolding y_def by simp
    ultimately show "h3 \<le> 597944665457800156704478217689537 / 649037107316853453566312041152512" unfolding h3_def by linarith
  qed
  define h2 where "h2 = 1 - y / 12 * h3"
  have b2: "526089663529140783655180438831489 / 649037107316853453566312041152512 \<le> h2" "h2 \<le> 263044831764570391827590219415745 / 324518553658426726783156020576256"
  proof -
    have c: "0 \<le> y / 12" using y0 by simp
    have "y / 12 * h3 \<le> y / 12 * (597944665457800156704478217689537 / 649037107316853453566312041152512)"
      using b3(2) c by (rule mult_left_mono)
    moreover have "526089663529140783655180438831489 / 649037107316853453566312041152512 \<le> 1 - y / 12 * (597944665457800156704478217689537 / 649037107316853453566312041152512)"
      unfolding y_def by simp
    ultimately show "526089663529140783655180438831489 / 649037107316853453566312041152512 \<le> h2" unfolding h2_def by linarith
    have "y / 12 * (1195889330915600313408956435379073 / 1298074214633706907132624082305024) \<le> y / 12 * h3"
      using b3(1) c by (rule mult_left_mono)
    moreover have "1 - y / 12 * (1195889330915600313408956435379073 / 1298074214633706907132624082305024) \<le> 263044831764570391827590219415745 / 324518553658426726783156020576256"
      unfolding y_def by simp
    ultimately show "h2 \<le> 263044831764570391827590219415745 / 324518553658426726783156020576256" unfolding h2_def by linarith
  qed
  define h1 where "h1 = 1 - y / 2 * h2"
  have b1: "79377994922892003 / 1298074214633706907132624082305024 \<le> h1" "h1 \<le> 39688997461446003 / 649037107316853453566312041152512"
  proof -
    have c: "0 \<le> y / 2" using y0 by simp
    have "y / 2 * h2 \<le> y / 2 * (263044831764570391827590219415745 / 324518553658426726783156020576256)"
      using b2(2) c by (rule mult_left_mono)
    moreover have "79377994922892003 / 1298074214633706907132624082305024 \<le> 1 - y / 2 * (263044831764570391827590219415745 / 324518553658426726783156020576256)"
      unfolding y_def by simp
    ultimately show "79377994922892003 / 1298074214633706907132624082305024 \<le> h1" unfolding h1_def by linarith
    have "y / 2 * (526089663529140783655180438831489 / 649037107316853453566312041152512) \<le> y / 2 * h2"
      using b2(1) c by (rule mult_left_mono)
    moreover have "1 - y / 2 * (526089663529140783655180438831489 / 649037107316853453566312041152512) \<le> 39688997461446003 / 649037107316853453566312041152512"
      unfolding y_def by simp
    ultimately show "h1 \<le> 39688997461446003 / 649037107316853453566312041152512" unfolding h1_def by linarith
  qed
  have xy: "x\<^sup>2 = y" unfolding x_def y_def by (simp add: power2_eq_square)
  have h: "(\<Sum>m<24. cos_coeff m * x ^ m) = h1"
    unfolding cos_horner_24 xy h1_def h2_def h3_def h4_def h5_def h6_def h7_def h8_def h9_def
      h10_def h11_def ..
  have "y \<le> 5 / 2" unfolding y_def by simp
  then have "y ^ 12 \<le> (5 / 2) ^ 12" using y0 by (rule power_mono)
  moreover have "x ^ 24 = y ^ 12" unfolding xy [symmetric] by (simp add: power_mult [symmetric])
  ultimately have "x ^ 24 / fact 24 \<le> (5 / 2) ^ 12 / fact 24"
    by (simp add: divide_right_mono)
  also have "\<dots> \<le> 1 / 10 ^ 18" by (simp add: fact_numeral power_divide)
  finally have r: "x ^ 24 / fact 24 \<le> 1 / 10 ^ 18" .
  have "0 < x" unfolding x_def by simp
  then have "(\<Sum>m<24. cos_coeff m * x ^ m) - x ^ 24 / fact 24 \<le> cos x"
    by (rule cos_ge_partial) simp
  moreover have "1 / 10 ^ 18 < (79377994922892003 / 1298074214633706907132624082305024 :: real)" by simp
  ultimately have "0 < cos x" using r b1(1) unfolding h by linarith
  then show ?thesis unfolding x_def .
qed

lemma cos_above_half_pi: "cos (14148475504056881 / 9007199254740992 :: real) < 0"
proof -
  define x :: real where "x = 14148475504056881 / 9007199254740992"
  define y :: real where "y = 200179359088897612886289283448161 / 81129638414606681695789005144064"
  have y0: "0 \<le> y" unfolding y_def by simp
  define h11 where "h11 = 1 - y / 462"
  have b11: "645570798068560854208973698581981 / 649037107316853453566312041152512 \<le> h11" "h11 \<le> 1291141596137121708417947397163963 / 1298074214633706907132624082305024"
    unfolding h11_def y_def by simp_all
  define h10 where "h10 = 1 - y / 380 * h11"
  have b10: "161211328080885692630848953903689 / 162259276829213363391578010288128 \<le> h10" "h10 \<le> 1289690624647085541046791631229513 / 1298074214633706907132624082305024"
  proof -
    have c: "0 \<le> y / 380" using y0 by simp
    have "y / 380 * h11 \<le> y / 380 * (1291141596137121708417947397163963 / 1298074214633706907132624082305024)"
      using b11(2) c by (rule mult_left_mono)
    moreover have "161211328080885692630848953903689 / 162259276829213363391578010288128 \<le> 1 - y / 380 * (1291141596137121708417947397163963 / 1298074214633706907132624082305024)"
      unfolding y_def by simp
    ultimately show "161211328080885692630848953903689 / 162259276829213363391578010288128 \<le> h10" unfolding h10_def by linarith
    have "y / 380 * (645570798068560854208973698581981 / 649037107316853453566312041152512) \<le> y / 380 * h11"
      using b11(1) c by (rule mult_left_mono)
    moreover have "1 - y / 380 * (645570798068560854208973698581981 / 649037107316853453566312041152512) \<le> 1289690624647085541046791631229513 / 1298074214633706907132624082305024"
      unfolding y_def by simp
    ultimately show "h10 \<le> 1289690624647085541046791631229513 / 1298074214633706907132624082305024" unfolding h10_def by linarith
  qed
  define h9 where "h9 = 1 - y / 306 * h10"
  have b9: "321918730074876775739934281674295 / 324518553658426726783156020576256 \<le> h9" "h9 \<le> 1287674920299507102959737126697181 / 1298074214633706907132624082305024"
  proof -
    have c: "0 \<le> y / 306" using y0 by simp
    have "y / 306 * h10 \<le> y / 306 * (1289690624647085541046791631229513 / 1298074214633706907132624082305024)"
      using b10(2) c by (rule mult_left_mono)
    moreover have "321918730074876775739934281674295 / 324518553658426726783156020576256 \<le> 1 - y / 306 * (1289690624647085541046791631229513 / 1298074214633706907132624082305024)"
      unfolding y_def by simp
    ultimately show "321918730074876775739934281674295 / 324518553658426726783156020576256 \<le> h9" unfolding h9_def by linarith
    have "y / 306 * (161211328080885692630848953903689 / 162259276829213363391578010288128) \<le> y / 306 * h10"
      using b10(1) c by (rule mult_left_mono)
    moreover have "1 - y / 306 * (161211328080885692630848953903689 / 162259276829213363391578010288128) \<le> 1287674920299507102959737126697181 / 1298074214633706907132624082305024"
      unfolding y_def by simp
    ultimately show "h9 \<le> 1287674920299507102959737126697181 / 1298074214633706907132624082305024" unfolding h9_def by linarith
  qed
  define h8 where "h8 = 1 - y / 240 * h9"
  have b8: "642417918743644909191541586938397 / 649037107316853453566312041152512 \<le> h8" "h8 \<le> 1284835837487289818383083173876795 / 1298074214633706907132624082305024"
  proof -
    have c: "0 \<le> y / 240" using y0 by simp
    have "y / 240 * h9 \<le> y / 240 * (1287674920299507102959737126697181 / 1298074214633706907132624082305024)"
      using b9(2) c by (rule mult_left_mono)
    moreover have "642417918743644909191541586938397 / 649037107316853453566312041152512 \<le> 1 - y / 240 * (1287674920299507102959737126697181 / 1298074214633706907132624082305024)"
      unfolding y_def by simp
    ultimately show "642417918743644909191541586938397 / 649037107316853453566312041152512 \<le> h8" unfolding h8_def by linarith
    have "y / 240 * (321918730074876775739934281674295 / 324518553658426726783156020576256) \<le> y / 240 * h9"
      using b9(1) c by (rule mult_left_mono)
    moreover have "1 - y / 240 * (321918730074876775739934281674295 / 324518553658426726783156020576256) \<le> 1284835837487289818383083173876795 / 1298074214633706907132624082305024"
      unfolding y_def by simp
    ultimately show "h8 \<le> 1284835837487289818383083173876795 / 1298074214633706907132624082305024" unfolding h8_def by linarith
  qed
  define h7 where "h7 = 1 - y / 182 * h8"
  have b7: "80040968991843813535346178264175 / 81129638414606681695789005144064 \<le> h7" "h7 \<le> 1280655503869501016565538852226801 / 1298074214633706907132624082305024"
  proof -
    have c: "0 \<le> y / 182" using y0 by simp
    have "y / 182 * h8 \<le> y / 182 * (1284835837487289818383083173876795 / 1298074214633706907132624082305024)"
      using b8(2) c by (rule mult_left_mono)
    moreover have "80040968991843813535346178264175 / 81129638414606681695789005144064 \<le> 1 - y / 182 * (1284835837487289818383083173876795 / 1298074214633706907132624082305024)"
      unfolding y_def by simp
    ultimately show "80040968991843813535346178264175 / 81129638414606681695789005144064 \<le> h7" unfolding h7_def by linarith
    have "y / 182 * (642417918743644909191541586938397 / 649037107316853453566312041152512) \<le> y / 182 * h8"
      using b8(1) c by (rule mult_left_mono)
    moreover have "1 - y / 182 * (642417918743644909191541586938397 / 649037107316853453566312041152512) \<le> 1280655503869501016565538852226801 / 1298074214633706907132624082305024"
      unfolding y_def by simp
    ultimately show "h7 \<le> 1280655503869501016565538852226801 / 1298074214633706907132624082305024" unfolding h7_def by linarith
  qed
  define h6 where "h6 = 1 - y / 132 * h7"
  have b6: "1274135647972211190899523334584951 / 1298074214633706907132624082305024 \<le> h6" "h6 \<le> 159266955996526398862440416823119 / 162259276829213363391578010288128"
  proof -
    have c: "0 \<le> y / 132" using y0 by simp
    have "y / 132 * h7 \<le> y / 132 * (1280655503869501016565538852226801 / 1298074214633706907132624082305024)"
      using b7(2) c by (rule mult_left_mono)
    moreover have "1274135647972211190899523334584951 / 1298074214633706907132624082305024 \<le> 1 - y / 132 * (1280655503869501016565538852226801 / 1298074214633706907132624082305024)"
      unfolding y_def by simp
    ultimately show "1274135647972211190899523334584951 / 1298074214633706907132624082305024 \<le> h6" unfolding h6_def by linarith
    have "y / 132 * (80040968991843813535346178264175 / 81129638414606681695789005144064) \<le> y / 132 * h7"
      using b7(1) c by (rule mult_left_mono)
    moreover have "1 - y / 132 * (80040968991843813535346178264175 / 81129638414606681695789005144064) \<le> 159266955996526398862440416823119 / 162259276829213363391578010288128"
      unfolding y_def by simp
    ultimately show "h6 \<le> 159266955996526398862440416823119 / 162259276829213363391578010288128" unfolding h6_def by linarith
  qed
  define h5 where "h5 = 1 - y / 90 * h6"
  have b5: "157892882801848301553274522147229 / 162259276829213363391578010288128 \<le> h5" "h5 \<le> 1263143062414786412426196177177833 / 1298074214633706907132624082305024"
  proof -
    have c: "0 \<le> y / 90" using y0 by simp
    have "y / 90 * h6 \<le> y / 90 * (159266955996526398862440416823119 / 162259276829213363391578010288128)"
      using b6(2) c by (rule mult_left_mono)
    moreover have "157892882801848301553274522147229 / 162259276829213363391578010288128 \<le> 1 - y / 90 * (159266955996526398862440416823119 / 162259276829213363391578010288128)"
      unfolding y_def by simp
    ultimately show "157892882801848301553274522147229 / 162259276829213363391578010288128 \<le> h5" unfolding h5_def by linarith
    have "y / 90 * (1274135647972211190899523334584951 / 1298074214633706907132624082305024) \<le> y / 90 * h6"
      using b6(1) c by (rule mult_left_mono)
    moreover have "1 - y / 90 * (1274135647972211190899523334584951 / 1298074214633706907132624082305024) \<le> 1263143062414786412426196177177833 / 1298074214633706907132624082305024"
      unfolding y_def by simp
    ultimately show "h5 \<le> 1263143062414786412426196177177833 / 1298074214633706907132624082305024" unfolding h5_def by linarith
  qed
  define h4 where "h4 = 1 - y / 56 * h5"
  have b4: "310604801060196294670068315951891 / 324518553658426726783156020576256 \<le> h4" "h4 \<le> 1242419204240785178680273263807565 / 1298074214633706907132624082305024"
  proof -
    have c: "0 \<le> y / 56" using y0 by simp
    have "y / 56 * h5 \<le> y / 56 * (1263143062414786412426196177177833 / 1298074214633706907132624082305024)"
      using b5(2) c by (rule mult_left_mono)
    moreover have "310604801060196294670068315951891 / 324518553658426726783156020576256 \<le> 1 - y / 56 * (1263143062414786412426196177177833 / 1298074214633706907132624082305024)"
      unfolding y_def by simp
    ultimately show "310604801060196294670068315951891 / 324518553658426726783156020576256 \<le> h4" unfolding h4_def by linarith
    have "y / 56 * (157892882801848301553274522147229 / 162259276829213363391578010288128) \<le> y / 56 * h5"
      using b5(1) c by (rule mult_left_mono)
    moreover have "1 - y / 56 * (157892882801848301553274522147229 / 162259276829213363391578010288128) \<le> 1242419204240785178680273263807565 / 1298074214633706907132624082305024"
      unfolding y_def by simp
    ultimately show "h4 \<le> 1242419204240785178680273263807565 / 1298074214633706907132624082305024" unfolding h4_def by linarith
  qed
  define h3 where "h3 = 1 - y / 30 * h4"
  have b3: "1195889330915600299593802775354453 / 1298074214633706907132624082305024 \<le> h3" "h3 \<le> 597944665457800149796901387677227 / 649037107316853453566312041152512"
  proof -
    have c: "0 \<le> y / 30" using y0 by simp
    have "y / 30 * h4 \<le> y / 30 * (1242419204240785178680273263807565 / 1298074214633706907132624082305024)"
      using b4(2) c by (rule mult_left_mono)
    moreover have "1195889330915600299593802775354453 / 1298074214633706907132624082305024 \<le> 1 - y / 30 * (1242419204240785178680273263807565 / 1298074214633706907132624082305024)"
      unfolding y_def by simp
    ultimately show "1195889330915600299593802775354453 / 1298074214633706907132624082305024 \<le> h3" unfolding h3_def by linarith
    have "y / 30 * (310604801060196294670068315951891 / 324518553658426726783156020576256) \<le> y / 30 * h4"
      using b4(1) c by (rule mult_left_mono)
    moreover have "1 - y / 30 * (310604801060196294670068315951891 / 324518553658426726783156020576256) \<le> 597944665457800149796901387677227 / 649037107316853453566312041152512"
      unfolding y_def by simp
    ultimately show "h3 \<le> 597944665457800149796901387677227 / 649037107316853453566312041152512" unfolding h3_def by linarith
  qed
  define h2 where "h2 = 1 - y / 12 * h3"
  have b2: "1052179327058281535391781952718139 / 1298074214633706907132624082305024 \<le> h2" "h2 \<le> 263044831764570383847945488179535 / 324518553658426726783156020576256"
  proof -
    have c: "0 \<le> y / 12" using y0 by simp
    have "y / 12 * h3 \<le> y / 12 * (597944665457800149796901387677227 / 649037107316853453566312041152512)"
      using b3(2) c by (rule mult_left_mono)
    moreover have "1052179327058281535391781952718139 / 1298074214633706907132624082305024 \<le> 1 - y / 12 * (597944665457800149796901387677227 / 649037107316853453566312041152512)"
      unfolding y_def by simp
    ultimately show "1052179327058281535391781952718139 / 1298074214633706907132624082305024 \<le> h2" unfolding h2_def by linarith
    have "y / 12 * (1195889330915600299593802775354453 / 1298074214633706907132624082305024) \<le> y / 12 * h3"
      using b3(1) c by (rule mult_left_mono)
    moreover have "1 - y / 12 * (1195889330915600299593802775354453 / 1298074214633706907132624082305024) \<le> 263044831764570383847945488179535 / 324518553658426726783156020576256"
      unfolding y_def by simp
    ultimately show "h2 \<le> 263044831764570383847945488179535 / 324518553658426726783156020576256" unfolding h2_def by linarith
  qed
  define h1 where "h1 = 1 - y / 2 * h2"
  have b1: "-64737193152963869 / 1298074214633706907132624082305024 \<le> h1" "h1 \<le> -64737193152963867 / 1298074214633706907132624082305024"
  proof -
    have c: "0 \<le> y / 2" using y0 by simp
    have "y / 2 * h2 \<le> y / 2 * (263044831764570383847945488179535 / 324518553658426726783156020576256)"
      using b2(2) c by (rule mult_left_mono)
    moreover have "-64737193152963869 / 1298074214633706907132624082305024 \<le> 1 - y / 2 * (263044831764570383847945488179535 / 324518553658426726783156020576256)"
      unfolding y_def by simp
    ultimately show "-64737193152963869 / 1298074214633706907132624082305024 \<le> h1" unfolding h1_def by linarith
    have "y / 2 * (1052179327058281535391781952718139 / 1298074214633706907132624082305024) \<le> y / 2 * h2"
      using b2(1) c by (rule mult_left_mono)
    moreover have "1 - y / 2 * (1052179327058281535391781952718139 / 1298074214633706907132624082305024) \<le> -64737193152963867 / 1298074214633706907132624082305024"
      unfolding y_def by simp
    ultimately show "h1 \<le> -64737193152963867 / 1298074214633706907132624082305024" unfolding h1_def by linarith
  qed
  have xy: "x\<^sup>2 = y" unfolding x_def y_def by (simp add: power2_eq_square)
  have h: "(\<Sum>m<24. cos_coeff m * x ^ m) = h1"
    unfolding cos_horner_24 xy h1_def h2_def h3_def h4_def h5_def h6_def h7_def h8_def h9_def
      h10_def h11_def ..
  have "y \<le> 5 / 2" unfolding y_def by simp
  then have "y ^ 12 \<le> (5 / 2) ^ 12" using y0 by (rule power_mono)
  moreover have "x ^ 24 = y ^ 12" unfolding xy [symmetric] by (simp add: power_mult [symmetric])
  ultimately have "x ^ 24 / fact 24 \<le> (5 / 2) ^ 12 / fact 24"
    by (simp add: divide_right_mono)
  also have "\<dots> \<le> 1 / 10 ^ 18" by (simp add: fact_numeral power_divide)
  finally have r: "x ^ 24 / fact 24 \<le> 1 / 10 ^ 18" .
  have "0 < x" unfolding x_def by simp
  then have "cos x \<le> (\<Sum>m<24. cos_coeff m * x ^ m) + x ^ 24 / fact 24"
    by (rule cos_ge_partial) simp
  moreover have "(-64737193152963867 / 1298074214633706907132624082305024 :: real) < - (1 / 10 ^ 18)" by simp
  ultimately have "cos x < 0" using r b1(2) unfolding h by linarith
  then show ?thesis unfolding x_def .
qed

lemma Math_PI_bounds: "Math_PI < pi" "pi < Math_PI + 1 / 2 ^ 52"
proof -
  have two: "(2::real) \<le> pi" by (rule pi_ge_two)
  have "cos (pi / 2) < cos (884279719003555 / 562949953421312 :: real)"
    using cos_below_half_pi by simp
  then have "(884279719003555 / 562949953421312 :: real) < pi / 2"
    using two by (subst (asm) cos_mono_less_eq) simp_all
  then show "Math_PI < pi" by (simp add: Math_PI_def)
  have "cos (14148475504056881 / 9007199254740992 :: real) < cos (pi / 2)"
    using cos_above_half_pi by simp
  then have "pi / 2 < (14148475504056881 / 9007199254740992 :: real)"
    using two by (subst (asm) cos_mono_less_eq) simp_all
  then show "pi < Math_PI + 1 / 2 ^ 52" by (simp add: Math_PI_def)
qed

lemma fl_pi: "fl pi = Math_PI"
proof -
  have e: "(2::real) powi 1 \<le> \<bar>pi\<bar>" "\<bar>pi\<bar> < 2 powi (1 + 1)"
    using pi_ge_two pi_less_4 by simp_all
  have "of_int 7074237752028440 - 1 / 2 < pi / 2 powi (1 - 52)"
    "pi / 2 powi (1 - 52) < of_int 7074237752028440 + 1 / 2"
    using Math_PI_bounds by (simp_all add: Math_PI_def power_int_minus field_simps)
  then have "round_even (pi / 2 powi (1 - 52)) = 7074237752028440"
    by (rule round_even_near)
  then show ?thesis
    by (simp add: fl_eval [OF e] Math_PI_def power_int_minus)
qed





lemma Math_cos_sin_0 [simp]: "Math_cos 0 = 1" "Math_sin 0 = 0"
  by (simp_all add: Math_cos_def Math_sin_def)

section \<open>Properties of the phase clock\<close>

lemma live_t_origin: "live_t config t0 t0 = 0"
  by (simp add: live_t_def js_rem_def trunc_def)


text \<open>Without posterize the raw phase passes through in both modes.\<close>

lemma phase_passes_through_without_posterize:
  assumes "posterize config = 0"
  shows "export_t config i totalFrames = fl (real i / totalFrames)"
    and "live_t config startTime now
           = js_rem (fl (fl (fl (now - startTime) / 1000) / loopDuration config)) 1"
  using assms by (simp_all add: export_t_def live_t_def)

lemma timeVec_0: "timeVec 0 = (1, 0)"
  by (simp add: timeVec_def)



text \<open>
  C1. The specification asks that the phase \<open>exportFrames\<close> computes for frame \<open>i\<close> is
  the phase the live ticker computes \<open>i / fps\<close> seconds after its time origin. The two
  modes round differently: the export divides \<open>i\<close> by the frame count, the live loop
  divides the elapsed seconds by the loop duration, and the floor of the posterize step
  tells the two quotients apart. Here a loop of 3 seconds at 30 frames per second with
  posterize 15 has 90 frames; frame 42 is exported at step 21 of 45, and the live loop
  1400 milliseconds after its origin is at step 20.
\<close>

theorem C1_export_and_live_phase_differ:
  "Math_round (fl (loopDuration (DEFAULT_CONFIG\<lparr> fps := 30, posterize := 15 \<rparr>)
                    * fps (DEFAULT_CONFIG\<lparr> fps := 30, posterize := 15 \<rparr>))) = 90
   \<and> export_t (DEFAULT_CONFIG\<lparr> fps := 30, posterize := 15 \<rparr>) 42 90 = fl (21 / 45)
   \<and> live_t (DEFAULT_CONFIG\<lparr> fps := 30, posterize := 15 \<rparr>) 0 1400 = fl (20 / 45)
   \<and> fl (21 / 45) \<noteq> fl (20 / 45)
   \<and> export_t (DEFAULT_CONFIG\<lparr> fps := 30, posterize := 15 \<rparr>) 42 90
       \<noteq> live_t (DEFAULT_CONFIG\<lparr> fps := 30, posterize := 15 \<rparr>) 0 1400"
proof -
  let ?c = "DEFAULT_CONFIG\<lparr> fps := 30, posterize := 15 \<rparr>"
  have c: "loopDuration ?c = 3" "fps ?c = 30" "posterize ?c = 15"
    by (simp_all add: DEFAULT_CONFIG_def)
  have ninety: "fl 90 = 90"
    by (subst fl_eval [where e = 6]) (simp_all add: power_int_minus)
  have n: "Math_round (fl (loopDuration ?c * fps ?c)) = 90"
    by (simp add: c ninety Math_round_def)
  have steps: "fl 45 = 45"
    by (subst fl_eval [where e = 5]) (simp_all add: power_int_minus)
  have e1: "fl (7 / 15) = 4203359652212463 / 9007199254740992"
    by (subst fl_eval [where e = "- 2"]) (simp_all add: round_even_def power_int_minus)
  have e2: "fl (4203359652212463 / 9007199254740992 * 45) = 21"
    by (subst fl_eval [where e = 4]) (simp_all add: round_even_def power_int_minus)
  have ex: "export_t ?c 42 90 = fl (21 / 45)"
    using e2 by (simp add: export_t_def c steps e1)
  have l0: "fl 1400 = 1400"
    by (subst fl_eval [where e = 10]) (simp_all add: power_int_minus)
  have l1: "fl (7 / 5) = 3152519739159347 / 2251799813685248"
    by (subst fl_eval [where e = 0]) (simp_all add: round_even_def power_int_minus)
  have l2: "fl (3152519739159347 / 2251799813685248 / 3) = 8406719304424925 / 18014398509481984"
    by (subst fl_eval [where e = "- 2"]) (simp_all add: round_even_def power_int_minus)
  have l3: "js_rem (8406719304424925 / 18014398509481984) 1 = 8406719304424925 / 18014398509481984"
    by (simp add: js_rem_def trunc_def)
  have l4: "fl (8406719304424925 / 18014398509481984 * 45) = 5910974510923775 / 281474976710656"
    by (subst fl_eval [where e = 4]) (simp_all add: round_even_def power_int_minus)
  have l5: "floor (5910974510923775 / 281474976710656 :: real) = 20"
    by simp
  have l2': "fl (3152519739159347 / 6755399441055744) = 8406719304424925 / 18014398509481984"
    using l2 by simp
  have l4': "fl (378302368699121625 / 18014398509481984) = 5910974510923775 / 281474976710656"
    using l4 by simp
  have lv: "live_t ?c 0 1400 = fl (20 / 45)"
    by (simp add: live_t_def c steps l0 l1 l2' l3 l4' l5)
  have e3: "fl (4 / 9) = 2001599834386887 / 4503599627370496"
    by (subst fl_eval [where e = "- 2"]) (simp_all add: round_even_def power_int_minus)
  have ne: "fl (21 / 45) \<noteq> fl (20 / 45)"
    by (simp add: e1 e3)
  from n ex lv ne show ?thesis by simp
qed




section \<open>Properties of exportFrames\<close>

lemma next_call_simps [simp]:
  "ec_i (next_call c blob) = ec_i c + 1"
  "ec_blobs (next_call c blob) = ec_blobs c @ [blob]"
  "ec_totalFrames (next_call c blob) = ec_totalFrames c"
  "ec_config (next_call c blob) = ec_config c"
  by (simp_all add: next_call_def)

lemma exportFrames_resume_cases:
  "exportFrames_resume now s c b =
     (case b of
        None \<Rightarrow> (s, Rejected (Error ''toBlob failed''))
      | Some blob \<Rightarrow>
          if real (ec_i c + 1) < ec_totalFrames c
          then (set_uTimeVec (timeVec (export_t (ec_config c) (ec_i c + 1) (ec_totalFrames c))) s,
                if app (pixiRef s) = None then Rejected TypeError
                else Awaiting (next_call c blob))
          else if app (pixiRef s) = None then (s, Rejected TypeError)
          else ((ticker_set True s)\<lparr> startTimeRef := now \<rparr>, Resolved (ec_blobs c @ [blob])))"
  by (auto simp: exportFrames_resume_def exportFrames_iter_cases next_call_def split: option.splits)

lemma exportFrames_run_unfold:
  "exportFrames_run env s c =
     (case toBlob env (ec_i c) of
        None \<Rightarrow> (s, Rejected (Error ''toBlob failed''))
      | Some blob \<Rightarrow>
          if real (ec_i c + 1) < ec_totalFrames c
          then (if app (pixiRef s) = None
                then (set_uTimeVec (timeVec (export_t (ec_config c) (ec_i c + 1)
                                       (ec_totalFrames c))) s, Rejected TypeError)
                else exportFrames_run env
                       (set_uTimeVec (timeVec (export_t (ec_config c) (ec_i c + 1)
                                       (ec_totalFrames c))) s)
                       (next_call c blob))
          else if app (pixiRef s) = None then (s, Rejected TypeError)
          else ((ticker_set True s)\<lparr> startTimeRef := performance_now env \<rparr>,
                Resolved (ec_blobs c @ [blob])))"
  by (subst exportFrames_run.simps) (auto simp: exportFrames_resume_cases split: option.splits)

lemma exportFrames_run_induct [consumes 0, case_names step]:
  fixes P :: "browser \<Rightarrow> engine \<Rightarrow> export_call \<Rightarrow> bool"
  assumes step: "\<And>env s c.
      (\<And>blob. toBlob env (ec_i c) = Some blob \<Longrightarrow> real (ec_i c + 1) < ec_totalFrames c \<Longrightarrow>
          app (pixiRef s) \<noteq> None \<Longrightarrow>
          P env (set_uTimeVec (timeVec (export_t (ec_config c) (ec_i c + 1) (ec_totalFrames c))) s)
            (next_call c blob))
      \<Longrightarrow> P env s c"
  shows "P env s c"
proof (induction env s c rule: exportFrames_run.induct)
  case (1 env s c)
  show ?case
  proof (rule step)
    fix blob
    assume b: "toBlob env (ec_i c) = Some blob" and lt: "real (ec_i c + 1) < ec_totalFrames c"
      and a: "app (pixiRef s) \<noteq> None"
    have r: "exportFrames_resume (performance_now env) s c (toBlob env (ec_i c))
       = (set_uTimeVec (timeVec (export_t (ec_config c) (ec_i c + 1) (ec_totalFrames c))) s,
          Awaiting (next_call c blob))"
      using b lt a by (simp add: exportFrames_resume_cases)
    from "1.IH" [OF r [symmetric] refl]
    show "P env (set_uTimeVec (timeVec (export_t (ec_config c) (ec_i c + 1) (ec_totalFrames c))) s)
            (next_call c blob)" .
  qed
qed

lemma exportFrames_run_not_Awaiting: "snd (exportFrames_run env s c) \<noteq> Awaiting c'"
proof (induction env s c rule: exportFrames_run_induct)
  case (step env s c)
  then show ?case
    by (subst exportFrames_run_unfold) (simp split: option.splits)
qed

lemma exportFrames_run_Rejected:
  "exportFrames_run env s c = (s', Rejected e) \<Longrightarrow> app (pixiRef s) \<noteq> None \<Longrightarrow>
     e = Error ''toBlob failed''
     \<and> map_option ticker_started (app (pixiRef s')) = map_option ticker_started (app (pixiRef s))"
proof (induction env s c rule: exportFrames_run_induct)
  case (step env s c)
  from step.prems show ?case
    by (subst (asm) exportFrames_run_unfold)
       (auto split: option.splits if_splits dest!: step.IH)
qed

lemma exportFrames_run_Resolved:
  "exportFrames_run env s c = (s', Resolved bs) \<Longrightarrow>
     startTimeRef s' = performance_now env
     \<and> configRef s' = configRef s
     \<and> destroyedRef s' = destroyedRef s
     \<and> map_option ticker_started (app (pixiRef s')) = map_option (\<lambda>a. True) (app (pixiRef s))
     \<and> (filter_p (pixiRef s') = None \<longleftrightarrow> filter_p (pixiRef s) = None)"
proof (induction env s c rule: exportFrames_run_induct)
  case (step env s c)
  from step.prems show ?case
    by (subst (asm) exportFrames_run_unfold)
       (auto split: option.splits if_splits dest!: step.IH simp: option.map_comp comp_def)
qed





lemma exportFrames_unfold:
  "exportFrames env s totalFrames =
     (if app (pixiRef s) = None \<or> filter_p (pixiRef s) = None
      then (s, Rejected (Error ''Engine not initialized''))
      else if 0 < totalFrames
      then exportFrames_run env
             (set_uTimeVec (timeVec (export_t (configRef s) 0 totalFrames)) (ticker_set False s))
             \<lparr> ec_totalFrames = totalFrames, ec_config = configRef s, ec_i = 0, ec_blobs = [] \<rparr>
      else ((ticker_set True (ticker_set False s))\<lparr> startTimeRef := performance_now env \<rparr>,
            Resolved []))"
proof -
  obtain s' t where r: "exportFrames_run env
             (set_uTimeVec (timeVec (export_t (configRef s) 0 totalFrames)) (ticker_set False s))
             \<lparr> ec_totalFrames = totalFrames, ec_config = configRef s, ec_i = 0, ec_blobs = [] \<rparr>
           = (s', t)"
    by (cases "exportFrames_run env
             (set_uTimeVec (timeVec (export_t (configRef s) 0 totalFrames)) (ticker_set False s))
             \<lparr> ec_totalFrames = totalFrames, ec_config = configRef s, ec_i = 0, ec_blobs = [] \<rparr>")
  have "\<And>c'. t \<noteq> Awaiting c'"
    using exportFrames_run_not_Awaiting [of env _ _ ] r by (metis snd_conv)
  then show ?thesis
    by (cases t) (simp_all add: exportFrames_def exportFrames_call_def exportFrames_iter_cases r)
qed

lemma exportFrames_toBlob_failure:
  assumes "exportFrames env s totalFrames = (s', Rejected (Error ''toBlob failed''))"
  shows "map_option ticker_started (app (pixiRef s')) = Some False"
proof -
  from assms have refs: "app (pixiRef s) \<noteq> None" "filter_p (pixiRef s) \<noteq> None"
    and pos: "0 < totalFrames"
    by (auto simp: exportFrames_unfold split: if_splits)
  from assms refs pos have "exportFrames_run env
             (set_uTimeVec (timeVec (export_t (configRef s) 0 totalFrames)) (ticker_set False s))
             \<lparr> ec_totalFrames = totalFrames, ec_config = configRef s, ec_i = 0, ec_blobs = [] \<rparr>
           = (s', Rejected (Error ''toBlob failed''))"
    by (simp add: exportFrames_unfold)
  from exportFrames_run_Rejected [OF this] refs show ?thesis
    by (auto simp: option.map_comp comp_def)
qed

text \<open>
  C3. The specification asks that the ticker \<open>exportFrames\<close> stopped on entry runs
  again when the call returns or rejects. The code starts the ticker only after the
  loop: a frame whose \<open>toBlob\<close> answers \<open>null\<close> rejects the call from inside the loop
  and the ticker stays stopped. Here the engine with an image, its ticker running,
  exports 3 frames and the second extraction fails.
\<close>

theorem C3_failed_export_leaves_ticker_stopped:
  "map_option ticker_started (app (pixiRef engine_with_image)) = Some True
   \<and> snd (exportFrames (browser_failing_from 1 5000) engine_with_image 3)
       = Rejected (Error ''toBlob failed'')
   \<and> map_option ticker_started
        (app (pixiRef (fst (exportFrames (browser_failing_from 1 5000) engine_with_image 3))))
       = Some False"
  by (simp add: exportFrames_unfold exportFrames_run_unfold engine_with_image_refs
        browser_failing_from_def option.map_comp comp_def)

lemma exportFrames_Resolved:
  assumes "exportFrames env s totalFrames = (s', Resolved bs)"
  shows "startTimeRef s' = performance_now env"
    and "configRef s' = configRef s"
    and "map_option ticker_started (app (pixiRef s')) = Some True"
    and "filter_p (pixiRef s') \<noteq> None"
proof -
  from assms have refs: "app (pixiRef s) \<noteq> None" "filter_p (pixiRef s) \<noteq> None"
    by (auto simp: exportFrames_unfold split: if_splits)
  show "startTimeRef s' = performance_now env"
    using assms refs
    by (auto simp: exportFrames_unfold split: if_splits dest!: exportFrames_run_Resolved)
  show "configRef s' = configRef s"
    using assms refs
    by (auto simp: exportFrames_unfold split: if_splits dest!: exportFrames_run_Resolved)
  show "map_option ticker_started (app (pixiRef s')) = Some True"
    using assms refs
    by (auto simp: exportFrames_unfold option.map_comp comp_def split: if_splits
          dest!: exportFrames_run_Resolved)
  show "filter_p (pixiRef s') \<noteq> None"
    using assms refs
    by (auto simp: exportFrames_unfold split: if_splits dest!: exportFrames_run_Resolved)
qed

text \<open>
  C10. When \<open>exportFrames\<close> resolves, the time origin of the live loop is the instant
  the export finished and the ticker runs: the elapsed time of the live loop is 0 at
  that instant, its phase is 0 and the ticker callback writes the time vector of phase
  0, whatever the engine showed when the export began. (A loop duration of 0 makes the
  source divide 0 by 0 and is left out.)
\<close>

theorem C10_export_resets_time_origin:
  assumes "exportFrames env s totalFrames = (s', Resolved bs)"
    and "loopDuration (configRef s) \<noteq> 0"
  shows "startTimeRef s' = performance_now env
       \<and> map_option ticker_started (app (pixiRef s')) = Some True
       \<and> (performance_now env - startTimeRef s') / 1000 = 0
       \<and> live_t (configRef s') (startTimeRef s') (performance_now env) = 0
       \<and> map_option uTimeVec (filter_p (pixiRef (ticker_callback (performance_now env) s')))
           = Some (1, 0)"
proof -
  note r = exportFrames_Resolved [OF assms(1)]
  from r(4) obtain f where f: "filter_p (pixiRef s') = Some f" by auto
  have "map_option uTimeVec (filter_p (pixiRef (ticker_callback (performance_now env) s')))
           = Some (timeVec (live_t (configRef s') (startTimeRef s') (performance_now env)))"
    by (simp add: ticker_callback_def f Let_def)
  then show ?thesis
    by (simp add: r(1) r(3) live_t_origin timeVec_0)
qed

theorem C10_export_resets_time_origin_witness:
  "loopDuration (configRef (ticker_callback 1000 engine_with_image)) \<noteq> 0
   \<and> map_option uTimeVec (filter_p (pixiRef (ticker_callback 1000 engine_with_image)))
       = Some (timeVec (fl (1 / 3)))
   \<and> snd (exportFrames (browser_ok 9000) (ticker_callback 1000 engine_with_image) 2)
       = Resolved [png_of 0, png_of 1]
   \<and> startTimeRef (fst (exportFrames (browser_ok 9000)
                            (ticker_callback 1000 engine_with_image) 2)) = 9000
   \<and> map_option uTimeVec (filter_p (pixiRef (ticker_callback 9000
         (fst (exportFrames (browser_ok 9000) (ticker_callback 1000 engine_with_image) 2)))))
       = Some (1, 0)"
proof -
  let ?env = "browser_ok 9000"
  let ?s = "ticker_callback 1000 engine_with_image"
  have refs: "app (pixiRef ?s) = app (pixiRef engine_with_image)"
      "filter_p (pixiRef ?s) \<noteq> None" "configRef ?s = DEFAULT_CONFIG"
    by (simp_all add: ticker_callback_def engine_with_image_refs Let_def)
  have L: "loopDuration (configRef ?s) \<noteq> 0"
    by (simp add: refs DEFAULT_CONFIG_def)
  have k: "fl 1000 = 1000"
    by (subst fl_eval [where e = 9]) (simp_all add: power_int_minus)
  have third: "fl (1 / 3) = 6004799503160661 / 18014398509481984"
    by (subst fl_eval [where e = "- 2"]) (simp_all add: round_even_def power_int_minus)
  have ph: "live_t DEFAULT_CONFIG 0 1000 = fl (1 / 3)"
    by (simp add: live_t_def DEFAULT_CONFIG_def js_rem_def trunc_def k third)
  have v: "map_option uTimeVec (filter_p (pixiRef ?s)) = Some (timeVec (fl (1 / 3)))"
    by (simp add: ticker_callback_def engine_with_image_refs Let_def ph)
  have n: "performance_now ?env = 9000" by (simp add: browser_ok_def)
  have r: "snd (exportFrames ?env ?s 2) = Resolved [png_of 0, png_of 1]"
    by (simp add: exportFrames_unfold exportFrames_run_unfold refs engine_with_image_refs
          browser_ok_def)
  then have "exportFrames ?env ?s 2 = (fst (exportFrames ?env ?s 2), Resolved [png_of 0, png_of 1])"
    by (metis prod.collapse)
  from C10_export_resets_time_origin [OF this L] L v r show ?thesis by (simp add: n)
qed

section \<open>Properties of the teardown\<close>

lemma refs_ok_new_engine: "refs_ok new_engine"
  by (simp add: refs_ok_def new_engine_def)

lemma refs_ok_init: "refs_ok s \<Longrightarrow> refs_ok (init canvas now s)"
  by (simp add: refs_ok_def init_def)

lemma refs_ok_loadImage: "refs_ok s \<Longrightarrow> refs_ok (loadImage src s)"
  by (simp add: refs_ok_def loadImage_def Let_def split: option.splits)

lemma refs_ok_updateConfig: "refs_ok s \<Longrightarrow> refs_ok (updateConfig partial s)"
  by (auto simp: refs_ok_def updateConfig_def Let_def split: option.splits)

lemma refs_ok_ticker_callback: "refs_ok s \<Longrightarrow> refs_ok (ticker_callback now s)"
  by (auto simp: refs_ok_def ticker_callback_def Let_def split: option.splits)

lemma refs_ok_destroy: "refs_ok s \<Longrightarrow> refs_ok (destroy s)"
  by (auto simp: refs_ok_def destroy_def Let_def split: option.splits)

lemma refs_ok_exportFrames_call:
  "refs_ok s \<Longrightarrow> refs_ok (fst (exportFrames_call now s totalFrames))"
  by (auto simp: refs_ok_def exportFrames_call_def exportFrames_iter_cases ticker_set_def
        set_uTimeVec_def split: option.splits)

lemma refs_ok_exportFrames_resume:
  "refs_ok s \<Longrightarrow> refs_ok (fst (exportFrames_resume now s c b))"
  by (auto simp: refs_ok_def exportFrames_resume_cases ticker_set_def
        set_uTimeVec_def split: option.splits)

lemma destroy_refs:
  assumes "refs_ok s"
  shows "pixiRef (destroy s) = (pixiRef s)\<lparr> app := None, filter_p := None, sprite := None \<rparr>"
    and "configRef (destroy s) = configRef s"
    and "destroyedRef (destroy s)"
  using assms by (auto simp: refs_ok_def destroy_def Let_def split: option.splits)

lemma refs_ok_engine_with_image: "refs_ok engine_with_image"
  unfolding engine_with_image_def
  by (intro refs_ok_loadImage refs_ok_init refs_ok_new_engine)

text \<open>
  A call that waits for a blob while the engine is torn down goes on into a
  \<open>TypeError\<close>, whether frames are left or not, and leaves the torn-down engine as it is.
\<close>

lemma exportFrames_resume_after_destroy:
  assumes "refs_ok s"
  shows "exportFrames_resume now (destroy s) c (Some blob) = (destroy s, Rejected TypeError)"
  by (simp add: exportFrames_resume_cases set_uTimeVec_def destroy_refs(1) [OF assms])

lemma export_torn_down_while_waiting:
  "snd (exportFrames_call 0 engine_with_image 2) = Awaiting (first_wait 2)"
  "exportFrames_resume 40 (destroy (fst (exportFrames_call 0 engine_with_image 2)))
       (first_wait 2) (Some (png_of 0))
     = (destroy (fst (exportFrames_call 0 engine_with_image 2)), Rejected TypeError)"
proof -
  show "snd (exportFrames_call 0 engine_with_image 2) = Awaiting (first_wait 2)"
    by (simp add: exportFrames_call_def exportFrames_iter_cases engine_with_image_refs
          first_wait_def)
  show "exportFrames_resume 40 (destroy (fst (exportFrames_call 0 engine_with_image 2)))
       (first_wait 2) (Some (png_of 0))
     = (destroy (fst (exportFrames_call 0 engine_with_image 2)), Rejected TypeError)"
    by (intro exportFrames_resume_after_destroy refs_ok_exportFrames_call
          refs_ok_engine_with_image)
qed

text \<open>
  C9, as the code has it. After \<open>destroy\<close>, \<open>loadImage\<close> returns at its guard and
  changes nothing, \<open>updateConfig\<close> stores the merged configuration and does nothing
  else, and \<open>exportFrames\<close> rejects with the error of an engine that is not initialised.
\<close>

theorem C9_calls_after_destroy:
  assumes "refs_ok s"
  shows "loadImage src (destroy s) = destroy s
   \<and> updateConfig partial (destroy s)
       = (destroy s)\<lparr> configRef := merge_config (configRef s) partial \<rparr>
   \<and> exportFrames env (destroy s) totalFrames
       = (destroy s, Rejected (Error ''Engine not initialized''))"
proof -
  note d = destroy_refs [OF assms]
  have 1: "loadImage src (destroy s) = destroy s"
    by (simp add: loadImage_def d(1))
  have 2: "updateConfig partial (destroy s)
       = (destroy s)\<lparr> configRef := merge_config (configRef s) partial \<rparr>"
    by (simp add: updateConfig_def Let_def d(1) d(2))
  have 3: "exportFrames env (destroy s) totalFrames
       = (destroy s, Rejected (Error ''Engine not initialized''))"
    by (simp add: exportFrames_unfold d(1))
  from 1 2 3 show ?thesis by simp
qed

theorem C9_calls_after_destroy_witness:
  "refs_ok engine_with_image
   \<and> loadImage (HTMLImageElement 640 480) (destroy engine_with_image) = destroy engine_with_image
   \<and> configRef (updateConfig ((no_change\<lparr> p_amountPx := Some 9 \<rparr>)) (destroy engine_with_image))
       = DEFAULT_CONFIG\<lparr> amountPx := 9 \<rparr>
   \<and> snd (exportFrames (browser_ok 0) (destroy engine_with_image) 72)
       = Rejected (Error ''Engine not initialized'')"
  using C9_calls_after_destroy [OF refs_ok_engine_with_image,
      of "HTMLImageElement 640 480" "no_change\<lparr> p_amountPx := Some 9 \<rparr>" "browser_ok 0" 72]
  by (simp add: refs_ok_engine_with_image merge_config_def engine_with_image_refs
        DEFAULT_CONFIG_def no_change_def)

text \<open>
  C9 as the specification states it fails: on the engine torn down after an image was loaded,
  \<open>loadImage\<close> and \<open>updateConfig\<close> return with the state as it was or with the new
  configuration only, and the error of \<open>exportFrames\<close> is not \<open>EngineDestroyed\<close>.
\<close>

theorem C9_calls_after_destroy_are_silent:
  "destroyedRef (destroy engine_with_image)
   \<and> loadImage (HTMLImageElement 640 480) (destroy engine_with_image) = destroy engine_with_image
   \<and> updateConfig (no_change) (destroy engine_with_image) = destroy engine_with_image
   \<and> snd (exportFrames (browser_ok 0) (destroy engine_with_image) 72)
       \<noteq> Rejected (Error ''EngineDestroyed'')"
  by (simp add: destroy_def loadImage_def updateConfig_def merge_config_def Let_def
        exportFrames_unfold engine_with_image_refs no_change_def DEFAULT_CONFIG_def)

section \<open>Properties of concurrent exports\<close>

lemma exportFrames_call_cases:
  "exportFrames_call now s totalFrames =
     (if app (pixiRef s) = None \<or> filter_p (pixiRef s) = None
      then (s, Rejected (Error ''Engine not initialized''))
      else if 0 < totalFrames
      then (set_uTimeVec (timeVec (export_t (configRef s) 0 totalFrames)) (ticker_set False s),
            Awaiting \<lparr> ec_totalFrames = totalFrames, ec_config = configRef s, ec_i = 0,
                       ec_blobs = [] \<rparr>)
      else ((ticker_set True (ticker_set False s))\<lparr> startTimeRef := now \<rparr>, Resolved []))"
  by (simp add: exportFrames_call_def exportFrames_iter_cases)

lemma in_flight_refs:
  "in_flight s c \<Longrightarrow> app (pixiRef s) \<noteq> None \<and> filter_p (pixiRef s) \<noteq> None"
proof (induction rule: in_flight.induct)
  case (entered now s totalFrames s' c)
  then show ?case
    by (auto simp: exportFrames_call_cases split: if_splits)
next
  case (resumed s c now b s' c')
  then show ?case
    by (auto simp: exportFrames_resume_cases split: option.splits if_splits)
qed

text \<open>
  C4, as the code has it. The engine keeps no record of a call in flight: while a
  call waits for a blob, a second call is accepted and starts its own loop (or resolves
  at once for no frames); nothing rejects it. What keeps two exports apart is the
  panel, whose buttons are disabled from the entry of \<open>handleExport\<close> to its
  \<open>finally\<close> block.
\<close>

theorem C4_second_call_is_accepted:
  assumes "in_flight s c"
  shows "snd (exportFrames_call now s totalFrames)
           = (if 0 < totalFrames
              then Awaiting \<lparr> ec_totalFrames = totalFrames, ec_config = configRef s, ec_i = 0,
                              ec_blobs = [] \<rparr>
              else Resolved [])
       \<and> button_disabled hasImage (handleExport_begin k p)
       \<and> button_disabled hasImage (handleExport_finally p) = (\<not> hasImage)"
proof -
  from in_flight_refs [OF assms]
  have "snd (exportFrames_call now s totalFrames)
           = (if 0 < totalFrames
              then Awaiting \<lparr> ec_totalFrames = totalFrames, ec_config = configRef s, ec_i = 0,
                              ec_blobs = [] \<rparr>
              else Resolved [])"
    by (auto simp: exportFrames_call_cases)
  then show ?thesis
    by (simp add: button_disabled_def handleExport_begin_def handleExport_finally_def)
qed

theorem C4_second_call_is_accepted_witness:
  "in_flight (fst (exportFrames_call 0 engine_with_image 72)) (first_wait 72)
   \<and> snd (exportFrames_call 10 (fst (exportFrames_call 0 engine_with_image 72)) 36)
       = Awaiting (first_wait 36)
   \<and> button_disabled True (handleExport_begin png \<lparr> exporting = None \<rparr>)"
proof -
  have 1: "snd (exportFrames_call 0 engine_with_image 72) = Awaiting (first_wait 72)"
    by (simp add: exportFrames_call_cases engine_with_image_refs first_wait_def)
  then have "exportFrames_call 0 engine_with_image 72
     = (fst (exportFrames_call 0 engine_with_image 72), Awaiting (first_wait 72))"
    by (metis prod.collapse)
  then have f: "in_flight (fst (exportFrames_call 0 engine_with_image 72)) (first_wait 72)"
    by (rule in_flight.entered)
  have c: "configRef (fst (exportFrames_call 0 engine_with_image 72)) = DEFAULT_CONFIG"
    by (simp add: exportFrames_call_cases engine_with_image_refs)
  from C4_second_call_is_accepted [OF f, of 10 36 True png "\<lparr> exporting = None \<rparr>"] f
  show ?thesis by (simp add: c first_wait_def)
qed

text \<open>
  C4 as the specification states it fails. Two calls for one frame each on the engine with an
  image: the second call, made while the first waits for its blob, waits for a blob of
  its own; the first then resolves and starts the ticker while the second is still in
  flight, and the second resolves after it.
\<close>

theorem C4_two_exports_interleave:
  "snd (exportFrames_call 0 engine_with_image 1) = Awaiting (first_wait 1)
   \<and> snd (exportFrames_call 0 (fst (exportFrames_call 0 engine_with_image 1)) 1)
       = Awaiting (first_wait 1)
   \<and> snd (exportFrames_call 0 (fst (exportFrames_call 0 engine_with_image 1)) 1)
       \<noteq> Rejected (Error ''ExportBusy'')
   \<and> snd (exportFrames_resume 40
            (fst (exportFrames_call 0 (fst (exportFrames_call 0 engine_with_image 1)) 1))
            (first_wait 1) (Some (png_of 0)))
       = Resolved [png_of 0]
   \<and> map_option ticker_started (app (pixiRef (fst (exportFrames_resume 40
            (fst (exportFrames_call 0 (fst (exportFrames_call 0 engine_with_image 1)) 1))
            (first_wait 1) (Some (png_of 0))))))
       = Some True
   \<and> snd (exportFrames_resume 50
            (fst (exportFrames_resume 40
               (fst (exportFrames_call 0 (fst (exportFrames_call 0 engine_with_image 1)) 1))
               (first_wait 1) (Some (png_of 0))))
            (first_wait 1) (Some (png_of 7)))
       = Resolved [png_of 7]"
  by (simp add: exportFrames_call_cases exportFrames_resume_cases engine_with_image_refs
        first_wait_def option.map_comp comp_def)

section \<open>Properties of the shader\<close>

lemma fbm_loop_sum:
  "i \<le> 8 \<Longrightarrow>
   fbm_loop octs p i val amplitude frequency
     = val + (\<Sum>k < nat (min octs 8) - i.
                 amplitude * (1 / 2) ^ k * snoise (fst p * (frequency * 2 ^ k), snd p * (frequency * 2 ^ k)))"
proof (induction octs p i val amplitude frequency rule: fbm_loop.induct)
  case (1 octs p i val amplitude frequency)
  show ?case
  proof (cases "i < 8 \<and> int i < octs")
    case True
    then have n: "nat (min octs 8) - i = Suc (nat (min octs 8) - (i + 1))" by linarith
    have "fbm_loop octs p i val amplitude frequency
        = fbm_loop octs p (i + 1)
                   (val + amplitude * snoise (fst p * frequency, snd p * frequency))
                   (amplitude * 0.5) (frequency * 2.0)"
      using True by (subst fbm_loop.simps) simp
    also have "\<dots> = (val + amplitude * snoise (fst p * frequency, snd p * frequency))
        + (\<Sum>k < nat (min octs 8) - (i + 1).
             (amplitude * 0.5) * (1 / 2) ^ k
               * snoise (fst p * ((frequency * 2.0) * 2 ^ k), snd p * ((frequency * 2.0) * 2 ^ k)))"
      using True by (intro "1.IH") auto
    also have "\<dots> = val + (\<Sum>k < nat (min octs 8) - i.
                 amplitude * (1 / 2) ^ k * snoise (fst p * (frequency * 2 ^ k), snd p * (frequency * 2 ^ k)))"
      unfolding n sum.lessThan_Suc_shift by (simp add: mult.assoc mult.left_commute)
    finally show ?thesis .
  next
    case False
    then have "nat (min octs 8) - i = 0" using "1.prems" by linarith
    moreover have "fbm_loop octs p i val amplitude frequency = val"
      using False by (subst fbm_loop.simps) auto
    ultimately show ?thesis by simp
  qed
qed

text \<open>
  C5. \<open>fbm\<close> is the sum, over the octaves \<open>i\<close> below the smaller of \<open>int(uOctaves)\<close>
  and 8, of \<open>amplitude\<^sub>i * snoise(p * frequency\<^sub>i)\<close> with amplitude \<open>0.5 * 0.5^i\<close> and
  frequency \<open>2^i\<close>: a count below 8 is honoured as it is, a count of 8 or more gives the
  8 octaves, and a count of 0 gives 0.
\<close>

theorem C5_fbm_octave_sum:
  "fbm u p = (\<Sum>i < nat (min (trunc (uOctaves u)) 8).
                (1 / 2) * (1 / 2) ^ i * snoise (fst p * 2 ^ i, snd p * 2 ^ i))
   \<and> (uOctaves u = 0 \<longrightarrow> fbm u p = 0)
   \<and> (8 \<le> uOctaves u \<longrightarrow>
        fbm u p = (\<Sum>i < 8. (1 / 2) * (1 / 2) ^ i * snoise (fst p * 2 ^ i, snd p * 2 ^ i)))"
proof -
  have s: "fbm u p = (\<Sum>i < nat (min (trunc (uOctaves u)) 8).
                (1 / 2) * (1 / 2) ^ i * snoise (fst p * 2 ^ i, snd p * 2 ^ i))"
    by (simp add: fbm_def fbm_loop_sum)
  have z: "uOctaves u = 0 \<Longrightarrow> fbm u p = 0"
    by (simp add: s trunc_def)
  have "8 \<le> uOctaves u \<Longrightarrow> nat (min (trunc (uOctaves u)) 8) = 8"
    by (simp add: trunc_def le_floor_iff)
  with s z show ?thesis by simp
qed


theorem C5_fbm_octave_sum_witness:
  "fbm (default_uniforms\<lparr> uOctaves := 0 \<rparr>) (3, 4) = 0
   \<and> fbm (default_uniforms\<lparr> uOctaves := 2 \<rparr>) (3, 4)
       = 1 / 2 * snoise (3, 4) + 1 / 4 * snoise (6, 8)
   \<and> fbm (default_uniforms\<lparr> uOctaves := 12 \<rparr>) (3, 4)
       = fbm (default_uniforms\<lparr> uOctaves := 8 \<rparr>) (3, 4)"
proof -
  have t: "trunc 2 = 2" by (simp add: trunc_def)
  have 0: "fbm (default_uniforms\<lparr> uOctaves := 0 \<rparr>) (3, 4) = 0"
    using C5_fbm_octave_sum [of "default_uniforms\<lparr> uOctaves := 0 \<rparr>" "(3, 4)"] by simp
  have 2: "fbm (default_uniforms\<lparr> uOctaves := 2 \<rparr>) (3, 4)
       = 1 / 2 * snoise (3, 4) + 1 / 4 * snoise (6, 8)"
    using C5_fbm_octave_sum [of "default_uniforms\<lparr> uOctaves := 2 \<rparr>" "(3, 4)"]
    by (simp add: t lessThan_Suc numeral_2_eq_2)
  have 8: "fbm (default_uniforms\<lparr> uOctaves := 12 \<rparr>) (3, 4)
       = fbm (default_uniforms\<lparr> uOctaves := 8 \<rparr>) (3, 4)"
    using C5_fbm_octave_sum [of "default_uniforms\<lparr> uOctaves := 12 \<rparr>" "(3, 4)"]
      C5_fbm_octave_sum [of "default_uniforms\<lparr> uOctaves := 8 \<rparr>" "(3, 4)"]
    by simp
  from 0 2 8 show ?thesis by simp
qed

lemma edgeMask_flat_alpha:
  assumes "0 \<le> uEdgeThreshold u"
    and "alpha (uSampler (fst uv + fst (pixelSize u), snd uv))
           = alpha (uSampler (fst uv - fst (pixelSize u), snd uv))"
    and "alpha (uSampler (fst uv, snd uv + snd (pixelSize u)))
           = alpha (uSampler (fst uv, snd uv - snd (pixelSize u)))"
  shows "edgeMask u uSampler uv = 0"
proof -
  have "(0 - uEdgeThreshold u) / (uEdgeThreshold u + 0.15 - uEdgeThreshold u) \<le> 0"
    using assms(1) by (simp add: divide_le_0_iff)
  then have "clamp ((0 - uEdgeThreshold u) / (uEdgeThreshold u + 0.15 - uEdgeThreshold u)) 0 1 = 0"
    by (simp add: clamp_def max_def)
  then show ?thesis
    using assms(2,3) by (simp add: edgeMask_def length2_def smoothstep_def Let_def)
qed

text \<open>
  C6. With \<open>uEdgeStrength = 0\<close> the displacement is the unmasked one, the two noise
  values times \<open>uAmountPx\<close> (converted to texture units by the pixel size), and the
  edge mask does not enter the output; with \<open>uEdgeStrength = 1\<close> the displacement is
  zero wherever the edge mask is 0, and the output is the source at the undisplaced
  coordinate. (Uniforms with a resolution or a size of 0 make the shader divide by 0 and
  are left out.)
\<close>

theorem C6_edge_strength_extremes:
  assumes "uniforms_ok u"
  shows "(uEdgeStrength u = 0 \<longrightarrow>
            displacement u uSampler uv = displacement_unmasked u uv
          \<and> displacement u uSampler uv
              = (fbm u (noiseCoord u uv) * uAmountPx u * (1 / fst (uResolution u)),
                 fbm u (fst (noiseCoord u uv) + 43, snd (noiseCoord u uv) + 17)
                   * uAmountPx u * (1 / snd (uResolution u)))
          \<and> main_frag u uSampler uv
              = uSampler (fst uv + fst (displacement_unmasked u uv),
                          snd uv + snd (displacement_unmasked u uv)))
       \<and> (uEdgeStrength u = 1 \<and> edgeMask u uSampler uv = 0 \<longrightarrow>
            displacement u uSampler uv = (0, 0) \<and> main_frag u uSampler uv = uSampler uv)"
proof -
  have a: "displacement u uSampler uv = displacement_unmasked u uv" if "uEdgeStrength u = 0"
    using that by (simp add: displacement_def mix_def)
  have b: "displacement_unmasked u uv
              = (fbm u (noiseCoord u uv) * uAmountPx u * (1 / fst (uResolution u)),
                 fbm u (fst (noiseCoord u uv) + 43, snd (noiseCoord u uv) + 17)
                   * uAmountPx u * (1 / snd (uResolution u)))"
    by (simp add: displacement_unmasked_def pixelSize_def Let_def)
  have c: "displacement u uSampler uv = (0, 0)"
    if "uEdgeStrength u = 1" "edgeMask u uSampler uv = 0"
    using that by (simp add: displacement_def mix_def)
  have m: "main_frag u uSampler uv
      = uSampler (fst uv + fst (displacement u uSampler uv), snd uv + snd (displacement u uSampler uv))"
    by (simp add: main_frag_def Let_def)
  show ?thesis
    using a b c by (auto simp: m)
qed

theorem C6_edge_strength_extremes_witness:
  "uniforms_ok default_uniforms
   \<and> uEdgeStrength default_uniforms = 0
   \<and> displacement default_uniforms opaque_white (1 / 2, 1 / 2)
       = displacement_unmasked default_uniforms (1 / 2, 1 / 2)
   \<and> edgeMask (default_uniforms\<lparr> uEdgeStrength := 1 \<rparr>) opaque_white (1 / 2, 1 / 2) = 0
   \<and> displacement (default_uniforms\<lparr> uEdgeStrength := 1 \<rparr>) opaque_white (1 / 2, 1 / 2) = (0, 0)
   \<and> main_frag (default_uniforms\<lparr> uEdgeStrength := 1 \<rparr>) opaque_white (1 / 2, 1 / 2)
       = (1, 1, 1, 1)"
proof -
  have ok: "uniforms_ok default_uniforms" "uniforms_ok (default_uniforms\<lparr> uEdgeStrength := 1 \<rparr>)"
    by (simp_all add: uniforms_ok_def default_uniforms_def)
  have s0: "uEdgeStrength default_uniforms = 0" by (simp add: default_uniforms_def)
  have e: "edgeMask (default_uniforms\<lparr> uEdgeStrength := 1 \<rparr>) opaque_white (1 / 2, 1 / 2) = 0"
    by (rule edgeMask_flat_alpha) (simp_all add: default_uniforms_def opaque_white_def)
  from C6_edge_strength_extremes [OF ok(1), of opaque_white "(1 / 2, 1 / 2)"]
    C6_edge_strength_extremes [OF ok(2), of opaque_white "(1 / 2, 1 / 2)"] ok s0 e
  show ?thesis by (simp add: opaque_white_def)
qed

section \<open>Properties of the still-sequence export\<close>





















section \<open>Properties of the video export\<close>

text \<open>
  C8, as the code has it. Without VP9 the export falls back to \<open>video/webm\<close> and
  resolves as it always does, with the blob of the recorded chunks; the MIME type of
  that blob is the only trace of the fallback.
\<close>

theorem C8_webm_fallback_is_silent:
  assumes "\<not> isTypeSupported env ''video/webm;codecs=vp9''"
    and "new_MediaRecorder env ''video/webm'' = None"
    and "draw_frames env frames = Inr pushed"
    and "recorded env ''video/webm'' (width, height) fps' pushed = Inr chunks"
  shows "exportWebm env frames width height fps'
           = Inr \<lparr> blob_data = filter (\<lambda>data. length data > 0) chunks,
                   blob_type = ''video/webm'' \<rparr>"
  using assms by (simp add: exportWebm_def)

theorem C8_webm_fallback_is_silent_witness:
  "\<not> isTypeSupported browser_without_vp9 ''video/webm;codecs=vp9''
   \<and> draw_frames browser_without_vp9 [png_of 0, png_of 1] = Inr [[0], [1]]
   \<and> exportWebm browser_without_vp9 [png_of 0, png_of 1] 100 100 24
       = Inr \<lparr> blob_data = [[0, 1]], blob_type = ''video/webm'' \<rparr>"
proof -
  have 1: "\<not> isTypeSupported browser_without_vp9 ''video/webm;codecs=vp9''"
    and 2: "new_MediaRecorder browser_without_vp9 ''video/webm'' = None"
    and 3: "draw_frames browser_without_vp9 [png_of 0, png_of 1] = Inr [[0], [1]]"
    and 4: "recorded browser_without_vp9 ''video/webm'' (100, 100) 24 [[0], [1]] = Inr [[0, 1]]"
    by (simp_all add: browser_without_vp9_def png_of_def)
  from C8_webm_fallback_is_silent [OF 1 2 3 4] 1 3 show ?thesis by simp
qed

text \<open>
  C8 as the specification states it fails: in a browser without VP9 the export succeeds with a
  plain blob, the same as with VP9 but for its MIME type, and nothing reports the
  fallback.
\<close>

theorem C8_fallback_returns_plain_blob:
  "\<not> isTypeSupported browser_without_vp9 ''video/webm;codecs=vp9''
   \<and> exportWebm browser_without_vp9 [png_of 0, png_of 1] 100 100 24
       = Inr \<lparr> blob_data = [[0, 1]], blob_type = ''video/webm'' \<rparr>
   \<and> exportWebm (browser_without_vp9\<lparr> isTypeSupported := (\<lambda>t. True) \<rparr>) [png_of 0, png_of 1] 100 100 24
       = Inr \<lparr> blob_data = [[0, 1]], blob_type = ''video/webm;codecs=vp9'' \<rparr>"
  by (simp add: exportWebm_def browser_without_vp9_def png_of_def)

end
